theory Spec2Isabelle
  imports Main "HOL-Library.Sublist"
begin

section \<open>Polling configuration (common/state.go)\<close>

text \<open>
  The struct \<open>AWSPollingConfig\<close> has two Go \<open>int\<close> fields. The method
  \<open>LogEnvOverrideWarnings\<close> only compares them with zero, so they are integers here.
\<close>

record AWSPollingConfig =
  MaxAttempts :: int
  DelaySeconds :: int

text \<open>
  The process environment read by \<open>os.Getenv\<close>: a function from variable names to
  values, the empty string standing for an unset variable as in Go.
\<close>

type_synonym environ = "string \<Rightarrow> string"

definition warn_both :: string where
  "warn_both = ''[WARNING] (aws): AWS_MAX_ATTEMPTS and AWS_TIMEOUT_SECONDS are both set. Packer will use AWS_MAX_ATTEMPTS and discard AWS_TIMEOUT_SECONDS.''"

definition warn_both_nodelay :: string where
  "warn_both_nodelay = warn_both @ ''  Since you have not set the poll delay, Packer will default to a 2-second delay.''"

definition warn_timeout_deprecated :: string where
  "warn_timeout_deprecated = ''[WARNING] (aws): env var AWS_TIMEOUT_SECONDS is deprecated in favor of AWS_MAX_ATTEMPTS env or aws_polling_max_attempts config option. If you have not explicitly set AWS_POLL_DELAY_SECONDS env or aws_polling_delay_seconds config option, we are defaulting to a poll delay of 2 seconds, regardless of the AWS waiter's default.''"

definition info_no_overrides :: string where
  "info_no_overrides = ''[INFO] (aws): No AWS timeout and polling overrides have been set. Packer will default to waiter-specific delays and timeouts. If you would like to customize the length of time between retries and max number of retries you may do so by setting the environment variables AWS_POLL_DELAY_SECONDS and AWS_MAX_ATTEMPTS or the configuration options aws_polling_delay_seconds and aws_polling_max_attempts to your desired values.''"

text \<open>
  \<open>LogEnvOverrideWarnings\<close> has a pointer receiver and writes to the process log. The
  model returns the receiver after the call together with the list of lines logged, in
  order.
\<close>

definition LogEnvOverrideWarnings :: "AWSPollingConfig \<Rightarrow> environ \<Rightarrow> AWSPollingConfig \<times> string list" where
  "LogEnvOverrideWarnings w getenv =
    (let pollDelayEnv = getenv ''AWS_POLL_DELAY_SECONDS'';
         timeoutSecondsEnv = getenv ''AWS_TIMEOUT_SECONDS'';
         maxAttemptsEnv = getenv ''AWS_MAX_ATTEMPTS'';
         maxAttemptsIsSet = (maxAttemptsEnv \<noteq> [] \<or> MaxAttempts w \<noteq> 0);
         timeoutSecondsIsSet = (timeoutSecondsEnv \<noteq> []);
         pollDelayIsSet = (pollDelayEnv \<noteq> [] \<or> DelaySeconds w \<noteq> 0);
         log1 = (if maxAttemptsIsSet \<and> timeoutSecondsIsSet
                 then [if \<not> pollDelayIsSet then warn_both_nodelay else warn_both]
                 else if timeoutSecondsIsSet then [warn_timeout_deprecated]
                 else []);
         log2 = (if \<not> maxAttemptsIsSet \<and> \<not> timeoutSecondsIsSet \<and> \<not> pollDelayIsSet
                 then [info_no_overrides] else [])
     in (w, log1 @ log2))"

definition no_env :: environ where
  "no_env = (\<lambda>_. [])"

section \<open>State bag, step actions and outcomes\<close>

text \<open>
  A Go function either returns or panics (a failed type assertion \<open>x.(T)\<close>, a nil
  pointer dereference, an index out of range). \<open>Panic\<close> is that second branch.
\<close>

datatype 'a outcome = Panic | Returned 'a

datatype StepAction = ActionContinue | ActionHalt

datatype ui_msg = Say string | UiError string

text \<open>
  The chroot builder's \<open>Config\<close>, with the two fields the step reads. Its interpolation
  context (\<open>GetContext\<close>) is passed to the renderer together with the record itself.
\<close>

record ChrootConfig =
  NVMEDevicePath :: string
  MountPath :: string

text \<open>
  \<open>StepManualMountCommand\<close>. The field \<open>GeneratedData\<close> is a pointer to an object of
  the plugin SDK: \<open>None\<close> is the nil pointer, \<open>Some kvs\<close> the key/value pairs put
  through it so far. The SDK's \<open>Put\<close> dereferences its receiver.
\<close>

record StepManualMountCommand =
  Command :: string
  mountPath :: string
  GeneratedData :: "(string \<times> string) list option"

type_synonym EbsVolumes = "(string \<times> string list) list"
type_synonym EbsSnapshots = "(string \<times> string list) list"

text \<open>
  The state bag maps string keys to values of any Go type (\<open>interface{}\<close>). The
  dynamic types that the modelled code asserts on are constructors; every other
  value is \<open>OtherVal\<close>. \<open>Get\<close> on an absent key gives nil, on which every type
  assertion panics.
\<close>

datatype bagval =
    ErrorVal string
  | StringVal string
  | ConfigVal ChrootConfig
  | UiVal
  | StepVal StepManualMountCommand
  | EbsVolumesVal EbsVolumes
  | EbsSnapshotsVal EbsSnapshots
  | OtherVal string

type_synonym StateBag = "string \<rightharpoonup> bagval"

section \<open>StepManualMountCommand (builder/chroot/step\_manual\_mount\_command.go)\<close>

text \<open>
  The library functions the step calls: \<open>interpolate.Render\<close> (given the config, whose
  context it uses, the template and the \<open>Device\<close> datum), \<open>filepath.Abs\<close> and
  \<open>filepath.Base\<close>. The first two can fail.
\<close>

record pathlib =
  Render :: "ChrootConfig \<Rightarrow> string \<Rightarrow> string \<Rightarrow> string + string"
  Abs :: "string \<Rightarrow> string + string"
  Base :: "string \<Rightarrow> string"

text \<open>
  What a call of \<open>Run\<close> leaves behind: the action returned, the receiver and the state
  bag after the call, the lines sent to the UI, and the external commands executed.
  The source builds no command at all (the shell invocation is commented out), so
  no branch of the model adds to \<open>commands\<close>.
\<close>

record run_result =
  action :: StepAction
  receiver :: StepManualMountCommand
  bag :: StateBag
  ui :: "ui_msg list"
  commands :: "string list"

definition mount_halt :: "StepManualMountCommand \<Rightarrow> StateBag \<Rightarrow> ui_msg list \<Rightarrow> string \<Rightarrow> run_result" where
  "mount_halt s st u err =
    (let e = ''Error preparing mount directory: '' @ err
     in \<lparr>action = ActionHalt, receiver = s, bag = st(''error'' \<mapsto> ErrorVal e),
         ui = u @ [UiError e], commands = []\<rparr>)"

definition mount_publish :: "StepManualMountCommand \<Rightarrow> StateBag \<Rightarrow> ui_msg list \<Rightarrow> string \<Rightarrow> run_result outcome" where
  "mount_publish s st u p =
    (let u3 = u @ [Say (''Mount Path After ABS is: '' @ p),
                   Say ''Skip Running manual mount commands...'',
                   Say (''Mount Path is: '' @ p)];
         s1 = s\<lparr>mountPath := p\<rparr>;
         st1 = st(''mount_path'' \<mapsto> StringVal p)
     in case GeneratedData s1 of
          None \<Rightarrow> Panic
        | Some gd \<Rightarrow>
            (let s2 = s1\<lparr>GeneratedData := Some (gd @ [(''MountPath'', p)])\<rparr>
             in Returned \<lparr>action = ActionContinue, receiver = s2,
                  bag = st1(''mount_device_cleanup'' \<mapsto> StepVal s2),
                  ui = u3, commands = []\<rparr>))"

definition mount_body :: "StepManualMountCommand \<Rightarrow> pathlib \<Rightarrow> StateBag \<Rightarrow> ChrootConfig \<Rightarrow> string \<Rightarrow> run_result outcome" where
  "mount_body s lib st config device0 =
    (let device = (if NVMEDevicePath config \<noteq> [] then NVMEDevicePath config else device0);
         u2 = [Say ''Running manual mount commands...'', Say (''Command is: '' @ Command s)]
     in if length (Command s) = 0
        then Returned \<lparr>action = ActionContinue, receiver = s, bag = st, ui = u2, commands = []\<rparr>
        else (case Render lib config (MountPath config) (Base lib device) of
                Inl err \<Rightarrow> Returned (mount_halt s st u2 err)
              | Inr p0 \<Rightarrow>
                  (case Abs lib p0 of
                     Inl err \<Rightarrow> Returned (mount_halt s st u2 err)
                   | Inr p \<Rightarrow> mount_publish s st u2 p)))"

text \<open>\<open>Run\<close>: the three type assertions at its head, then the body.\<close>

definition Run :: "StepManualMountCommand \<Rightarrow> pathlib \<Rightarrow> StateBag \<Rightarrow> run_result outcome" where
  "Run s lib st =
    (case st ''config'' of
       Some (ConfigVal config) \<Rightarrow>
         (case st ''device'' of
            Some (StringVal device0) \<Rightarrow>
              (case st ''ui'' of
                 Some UiVal \<Rightarrow> mount_body s lib st config device0
               | _ \<Rightarrow> Panic)
          | _ \<Rightarrow> Panic)
     | _ \<Rightarrow> Panic)"

text \<open>
  \<open>CleanupFunc\<close> returns an error (\<open>None\<close> is nil), with the UI lines and the
  commands executed. Both returns of the source are \<open>return nil\<close>.
\<close>

definition CleanupFunc :: "StepManualMountCommand \<Rightarrow> StateBag \<Rightarrow> (string option \<times> ui_msg list \<times> string list) outcome" where
  "CleanupFunc s st =
    (if mountPath s = [] then Returned (None, [], [])
     else (case st ''ui'' of
             Some UiVal \<Rightarrow> Returned (None, [Say ''Unmounting the root device...''], [])
           | _ \<Rightarrow> Panic))"

definition Cleanup :: "StepManualMountCommand \<Rightarrow> StateBag \<Rightarrow> (ui_msg list) outcome" where
  "Cleanup s st =
    (case st ''ui'' of
       Some UiVal \<Rightarrow>
         (case CleanupFunc s st of
            Panic \<Rightarrow> Panic
          | Returned (None, u, _) \<Rightarrow> Returned u
          | Returned (Some e, u, _) \<Rightarrow> Returned (u @ [UiError e]))
     | _ \<Rightarrow> Panic)"

section \<open>The ebsvolume builder's Run\<close>

text \<open>
  The AWS session as far as the code reads it: \<open>Config.Region\<close>, a \<open>*string\<close>.
\<close>

record Session =
  Region :: "string option"

record EbsVolumeArtifact =
  Volumes :: EbsVolumes
  Snapshots :: EbsSnapshots
  BuilderIdValue :: string
  Conn :: Session
  StateData :: "(string \<times> bagval option) list"

definition BuilderId_ebsvolume :: string where
  "BuilderId_ebsvolume = ''mitchellh.amazon.ebsvolume''"

text \<open>
  The state bag \<open>Run\<close> hands to the step runner. The values of these keys are never
  read back by \<open>Run\<close>.
\<close>

definition initial_bag :: "Session \<Rightarrow> StateBag" where
  "initial_bag sess =
    [''config'' \<mapsto> OtherVal ''*ebsvolume.Config'',
     ''access_config'' \<mapsto> OtherVal ''*AccessConfig'',
     ''ec2'' \<mapsto> OtherVal ''*ec2.EC2'',
     ''iam'' \<mapsto> OtherVal ''*iam.IAM'',
     ''hook'' \<mapsto> OtherVal ''Hook'',
     ''ui'' \<mapsto> UiVal,
     ''region'' \<mapsto> OtherVal ''*string'']"

text \<open>
  Lines 953 to 967: what \<open>Run\<close> does with the state bag once the runner is back.
\<close>

definition collect_artifact :: "Session \<Rightarrow> StateBag \<Rightarrow> (EbsVolumeArtifact option \<times> string option) outcome" where
  "collect_artifact sess st =
    (case st ''error'' of
       Some rawErr \<Rightarrow>
         (case rawErr of ErrorVal e \<Rightarrow> Returned (None, Some e) | _ \<Rightarrow> Panic)
     | None \<Rightarrow>
         (case st ''ebsvolumes'' of
            Some (EbsVolumesVal vols) \<Rightarrow>
              (case st ''ebssnapshots'' of
                 Some (EbsSnapshotsVal snaps) \<Rightarrow>
                   Returned (Some \<lparr>Volumes = vols, Snapshots = snaps,
                                   BuilderIdValue = BuilderId_ebsvolume, Conn = sess,
                                   StateData = [(''generated_data'', st ''generated_data'')]\<rparr>,
                             None)
               | _ \<Rightarrow> Panic)
          | _ \<Rightarrow> Panic))"

text \<open>
  \<open>Builder.Run\<close> of the ebsvolume builder. \<open>session\<close> is what \<open>b.config.Session()\<close>
  gives. \<open>runner\<close> is the SDK's step runner over the steps built from the
  configuration: \<open>b.runner.Run(ctx, state)\<close> has no result and leaves its effect in
  the state bag, so it is a function from the bag before to the bag after. Building
  the steps dereferences the session's region (line 905).
\<close>

definition Builder_Run :: "string + Session \<Rightarrow> (StateBag \<Rightarrow> StateBag) \<Rightarrow> (EbsVolumeArtifact option \<times> string option) outcome" where
  "Builder_Run session runner =
    (case session of
       Inl err \<Rightarrow> Returned (None, Some err)
     | Inr sess \<Rightarrow>
         (case Region sess of
            None \<Rightarrow> Panic
          | Some _ \<Rightarrow> collect_artifact sess (runner (initial_bag sess))))"

section \<open>Regular expressions of ValidateKmsKey\<close>

text \<open>
  Go's \<open>regexp\<close> patterns, with the operators that the patterns of \<open>ValidateKmsKey\<close>
  use: character classes, concatenation, alternation, \<open>?\<close>, \<open>+\<close> and counted
  repetition. \<open>NoMatch\<close> and \<open>Eps\<close> (the empty string) arise when a pattern is matched.
\<close>

datatype rexp =
    NoMatch
  | Eps
  | Cls "char list"
  | Seq rexp rexp
  | Alt rexp rexp
  | Star rexp

definition Plus :: "rexp \<Rightarrow> rexp" where
  "Plus r = Seq r (Star r)"

definition Opt :: "rexp \<Rightarrow> rexp" where
  "Opt r = Alt r Eps"

fun Lit :: "string \<Rightarrow> rexp" where
  "Lit [] = Eps"
| "Lit (c # cs) = Seq (Cls [c]) (Lit cs)"

fun Times :: "nat \<Rightarrow> rexp \<Rightarrow> rexp" where
  "Times 0 r = Eps"
| "Times (Suc n) r = Seq r (Times n r)"

fun nullable :: "rexp \<Rightarrow> bool" where
  "nullable NoMatch = False"
| "nullable Eps = True"
| "nullable (Cls cs) = False"
| "nullable (Seq r s) = (nullable r \<and> nullable s)"
| "nullable (Alt r s) = (nullable r \<or> nullable s)"
| "nullable (Star r) = True"

text \<open>\<open>deriv c r\<close> matches what \<open>r\<close> matches after a leading \<open>c\<close>.\<close>

fun deriv :: "char \<Rightarrow> rexp \<Rightarrow> rexp" where
  "deriv c NoMatch = NoMatch"
| "deriv c Eps = NoMatch"
| "deriv c (Cls cs) = (if c \<in> set cs then Eps else NoMatch)"
| "deriv c (Seq r s) =
     (if nullable r then Alt (Seq (deriv c r) s) (deriv c s) else Seq (deriv c r) s)"
| "deriv c (Alt r s) = Alt (deriv c r) (deriv c s)"
| "deriv c (Star r) = Seq (deriv c r) (Star r)"

text \<open>
  Every pattern of \<open>ValidateKmsKey\<close> starts with \<open>^\<close> and ends with \<open>$\<close>, so
  \<open>MatchString\<close> holds when the pattern matches the whole string. \<open>MatchString r s\<close>
  is that, for the pattern \<open>^r$\<close>.
\<close>

definition MatchString :: "rexp \<Rightarrow> string \<Rightarrow> bool" where
  "MatchString r s = nullable (fold deriv s r)"

text \<open>The strings a pattern matches, as a set.\<close>

definition conc :: "string set \<Rightarrow> string set \<Rightarrow> string set" where
  "conc A B = {u @ v | u v. u \<in> A \<and> v \<in> B}"

inductive_set star :: "string set \<Rightarrow> string set" for A :: "string set" where
  star_nil: "[] \<in> star A"
| star_step: "u \<in> A \<Longrightarrow> v \<in> star A \<Longrightarrow> u @ v \<in> star A"

fun lang :: "rexp \<Rightarrow> string set" where
  "lang NoMatch = {}"
| "lang Eps = {[]}"
| "lang (Cls cs) = {[c] | c. c \<in> set cs}"
| "lang (Seq r s) = conc (lang r) (lang s)"
| "lang (Alt r s) = lang r \<union> lang s"
| "lang (Star r) = star (lang r)"

text \<open>The character classes \<open>[a-f0-9]\<close>, \<open>[a-f0-9-]\<close>, \<open>[a-zA-Z0-9:/_-]\<close>, \<open>[a-z]\<close>, \<open>\d\<close>.\<close>

definition hex_cls :: rexp where
  "hex_cls = Cls ''abcdef0123456789''"

definition hexdash_cls :: rexp where
  "hexdash_cls = Cls ''abcdef0123456789-''"

definition alias_cls :: rexp where
  "alias_cls = Cls ''abcdefghijklmnopqrstuvwxyzABCDEFGHIJKLMNOPQRSTUVWXYZ0123456789:/_-''"

definition lower_cls :: rexp where
  "lower_cls = Cls ''abcdefghijklmnopqrstuvwxyz''"

definition digit_cls :: rexp where
  "digit_cls = Cls ''0123456789''"

text \<open>\<open>[a-f0-9]+[a-f0-9-]+\<close>\<close>

definition kmsKeyIdPattern :: rexp where
  "kmsKeyIdPattern = Seq (Plus hex_cls) (Plus hexdash_cls)"

text \<open>\<open>mrk-[a-f0-9]+[a-f0-9-]+\<close>\<close>

definition mrkKeyIdPattern :: rexp where
  "mrkKeyIdPattern = Seq (Lit ''mrk-'') (Seq (Plus hex_cls) (Plus hexdash_cls))"

text \<open>\<open>alias/[a-zA-Z0-9:/_-]+\<close>\<close>

definition aliasPattern :: rexp where
  "aliasPattern = Seq (Lit ''alias/'') (Plus alias_cls)"

text \<open>\<open>arn:aws(-[a-z]{2}(-gov)?)?:kms:([a-z]{2}-(gov-)?[a-z]+-\d{1})?:(\d{12}):\<close>\<close>

definition kmsArnStartPattern :: rexp where
  "kmsArnStartPattern =
     Seq (Lit ''arn:aws'')
    (Seq (Opt (Seq (Lit ''-'') (Seq (Times 2 lower_cls) (Opt (Lit ''-gov'')))))
    (Seq (Lit '':kms:'')
    (Seq (Opt (Seq (Times 2 lower_cls) (Seq (Lit ''-'') (Seq (Opt (Lit ''gov-''))
            (Seq (Plus lower_cls) (Seq (Lit ''-'') (Times 1 digit_cls)))))))
    (Seq (Lit '':'')
    (Seq (Times 12 digit_cls) (Lit '':''))))))"

text \<open>
  \<open>ValidateKmsKey\<close>: six patterns tried in turn, the last three made of the ARN
  start, \<open>key/\<close> (or nothing, before an alias) and one of the first three.
\<close>

definition ValidateKmsKey :: "string \<Rightarrow> bool" where
  "ValidateKmsKey kmsKey =
    (if MatchString kmsKeyIdPattern kmsKey then True
     else if MatchString mrkKeyIdPattern kmsKey then True
     else if MatchString aliasPattern kmsKey then True
     else if MatchString (Seq (Seq kmsArnStartPattern (Lit ''key/'')) kmsKeyIdPattern) kmsKey then True
     else if MatchString (Seq (Seq kmsArnStartPattern (Lit ''key/'')) mrkKeyIdPattern) kmsKey then True
     else if MatchString (Seq kmsArnStartPattern aliasPattern) kmsKey then True
     else False)"

section \<open>AMIConfig (common/ami\_config.go)\<close>

text \<open>\<open>config.Trilean\<close> of the SDK: unset, true or false. \<open>True()\<close> holds of \<open>TriTrue\<close> alone.\<close>

datatype Trilean = TriUnset | TriTrue | TriFalse

definition Trilean_True :: "Trilean \<Rightarrow> bool" where
  "Trilean_True t = (t = TriTrue)"

record DeregistrationProtectionOptions =
  Enabled :: bool
  WithCooldown :: bool

text \<open>
  The fields of \<open>AMIConfig\<close> (with those of the embedded \<open>SnapshotConfig\<close>) that
  \<open>Prepare\<close> reads or writes. A Go map is a list of key/value pairs with distinct
  keys; Go leaves the order in which \<open>range\<close> visits a map open, the model visits
  the list in its order.
\<close>

record AMIConfig =
  AMIName :: string
  AMIUsers :: "string list"
  AMIOrgArns :: "string list"
  AMIOuArns :: "string list"
  AMIRegions :: "string list"
  AMITags :: "(string \<times> string) list"
  AMITag :: "(string \<times> string) list"
  AMIEncryptBootVolume :: Trilean
  AMIKmsKeyId :: string
  AMIRegionKMSKeyIDs :: "(string \<times> string) list"
  AMIIMDSSupport :: string
  DeprecationTime :: string
  SnapshotTags :: "(string \<times> string) list"
  SnapshotTag :: "(string \<times> string) list"
  SnapshotUsers :: "string list"
  DeregistrationProtection :: DeregistrationProtectionOptions

text \<open>
  The fields of \<open>AccessConfig\<close> read by the modelled code. \<open>PollingConfig\<close> is a
  pointer (\<open>None\<close> is nil).
\<close>

record AccessConfig =
  RawRegion :: string
  PollingConfig :: "AWSPollingConfig option"

text \<open>
  The errors of \<open>AMIConfig.Prepare\<close>, one constructor for each \<open>fmt.Errorf\<close> of the
  source, in the order of the source:
  \<^item> \<open>ExternalError\<close>: an error returned by \<open>KeyValues.CopyOn\<close> of the SDK;
  \<^item> \<open>AmiNameMissing\<close>: ``ami\_name must be specified'';
  \<^item> \<open>KmsRegionNotInAmiRegions r\<close>: ``Region r is in region\_kms\_key\_ids but not in ami\_regions'';
  \<^item> \<open>AmiRegionNotInKmsRegions r\<close>: ``Region r is in ami\_regions but not in region\_kms\_key\_ids'';
  \<^item> \<open>ShareDefaultKeyAmi\<close>: ``Cannot share AMI encrypted with default KMS key'';
  \<^item> \<open>ShareDefaultKeyAmiRegions\<close>: ``Cannot share AMI encrypted with default KMS key for other regions'';
  \<^item> \<open>KmsNeedsEncryptBoot\<close>: ``If you have set either region\_kms\_key\_ids or kms\_key\_id, encrypt\_boot must also be true.'';
  \<^item> \<open>InvalidKmsKey k\<close>: ``k is not a valid KMS Key Id.'';
  \<^item> \<open>ShareDefaultKeySnapshot\<close>: ``Cannot share snapshot encrypted with default KMS key, see ...'';
  \<^item> \<open>ShareDefaultKeySnapshotRegions\<close>: ``Cannot share snapshot encrypted with default KMS key'';
  \<^item> \<open>AmiNameLength\<close>: ``ami\_name must be between 3 and 128 characters long'';
  \<^item> \<open>AmiNameCharacters\<close>: ``AMIName should only contain alphanumeric characters, ...'';
  \<^item> \<open>InvalidImdsSupport\<close>: ``The only valid imds\_support values are "v2.0" or the empty string'';
  \<^item> \<open>InvalidDeprecationTime t\<close>: ``deprecate\_at is not a valid time: t. ...''.
\<close>

datatype ami_error =
    ExternalError string
  | AmiNameMissing
  | KmsRegionNotInAmiRegions string
  | AmiRegionNotInKmsRegions string
  | ShareDefaultKeyAmi
  | ShareDefaultKeyAmiRegions
  | KmsNeedsEncryptBoot
  | InvalidKmsKey string
  | ShareDefaultKeySnapshot
  | ShareDefaultKeySnapshotRegions
  | AmiNameLength
  | AmiNameCharacters
  | InvalidImdsSupport
  | InvalidDeprecationTime string

definition stringInSlice :: "string list \<Rightarrow> string \<Rightarrow> bool" where
  "stringInSlice s searchstr = List.member s searchstr"

text \<open>
  Modelled from the spec: \<open>templateCleanAMIName\<close> is defined in a file of the repository
  that is not among the sources at hand. The spec and the message of \<open>Prepare\<close> (lines
  305 to 309) name the characters an AMI name may hold: alphanumerics, parentheses,
  square brackets, spaces, periods, slashes, dashes, single quotes, at-signs and
  underscores. The cleaned name keeps these and has a dash for every other character.
\<close>

definition isalphanumeric :: "char \<Rightarrow> bool" where
  "isalphanumeric b =
     List.member ''0123456789abcdefghijklmnopqrstuvwxyzABCDEFGHIJKLMNOPQRSTUVWXYZ'' b"

definition ami_name_allowed :: "char \<Rightarrow> bool" where
  "ami_name_allowed b = (isalphanumeric b \<or> List.member ''()[] ./-'@_'' b)"

definition templateCleanAMIName :: "string \<Rightarrow> string" where
  "templateCleanAMIName s = map (\<lambda>c. if ami_name_allowed c then c else CHR ''-'') s"

text \<open>
  The loop of \<open>prepareRegions\<close> (lines 343 to 366). \<open>kms\<close> is \<open>AMIRegionKMSKeyIDs\<close>,
  \<open>raw\<close> is \<open>Some\<close> of the access config's \<open>RawRegion\<close>, or \<open>None\<close> when the access
  config is nil, \<open>seen\<close> holds the keys of \<open>regionSet\<close>. The result is the errors
  appended and the regions appended to \<open>regions\<close>.
\<close>

fun regions_loop :: "(string \<times> string) list \<Rightarrow> string option \<Rightarrow> string list \<Rightarrow> string list \<Rightarrow> ami_error list \<times> string list" where
  "regions_loop kms raw seen [] = ([], [])"
| "regions_loop kms raw seen (region # rest) =
     (if List.member seen region then regions_loop kms raw seen rest
      else (let errs1 = (if length kms > 0 \<and> map_of kms region = None
                         then [AmiRegionNotInKmsRegions region] else []);
                (errs, regions) = regions_loop kms raw (region # seen) rest
            in if raw = Some region then (errs1 @ errs, regions)
               else (errs1 @ errs, region # regions)))"

definition prepareRegions :: "AMIConfig \<Rightarrow> AccessConfig option \<Rightarrow> ami_error list \<times> AMIConfig" where
  "prepareRegions c accessConfig =
    (if length (AMIRegions c) > 0
     then (let (errs, regions) =
                 regions_loop (AMIRegionKMSKeyIDs c) (map_option RawRegion accessConfig) [] (AMIRegions c)
           in (errs, c\<lparr>AMIRegions := regions\<rparr>))
     else ([], c))"

text \<open>
  The library functions \<open>Prepare\<close> calls: \<open>KeyValues.CopyOn\<close> of the SDK (given the
  key/value blocks and the map, it gives its errors and the map after the copy) and
  \<open>time.Parse\<close> with the layout RFC3339 (whether it succeeds).
\<close>

record ami_lib =
  CopyOn :: "(string \<times> string) list \<Rightarrow> (string \<times> string) list \<Rightarrow> string list \<times> (string \<times> string) list"
  time_Parse_RFC3339 :: "string \<Rightarrow> bool"

definition ImdsSupportValuesV20 :: string where
  "ImdsSupportValuesV20 = ''v2.0''"

text \<open>Lines 239 to 245: every region of \<open>region_kms_key_ids\<close> is in \<open>ami_regions\<close>.\<close>

definition check_kms_regions :: "AMIConfig \<Rightarrow> ami_error list" where
  "check_kms_regions c =
    (if length (AMIRegionKMSKeyIDs c) > 0
     then concat (map (\<lambda>(kmsKeyRegion, _).
            if \<not> stringInSlice (AMIRegions c) kmsKeyRegion
            then [KmsRegionNotInAmiRegions kmsKeyRegion] else []) (AMIRegionKMSKeyIDs c))
     else [])"

text \<open>
  Lines 250 to 261 and 286 to 298: sharing with the default key. \<open>shared\<close> is the
  guard of the block, \<open>e1\<close> and \<open>e2\<close> the two errors of the block.
\<close>

definition check_share :: "AMIConfig \<Rightarrow> bool \<Rightarrow> ami_error \<Rightarrow> ami_error \<Rightarrow> ami_error list" where
  "check_share c shared e1 e2 =
    (if shared
     then (if length (AMIKmsKeyId c) = 0 \<and> length (AMIRegionKMSKeyIDs c) = 0 \<and>
              Trilean_True (AMIEncryptBootVolume c)
           then [e1] else []) @
          (if length (AMIRegionKMSKeyIDs c) > 0
           then concat (map (\<lambda>(_, kmsKey). if length kmsKey = 0 then [e2] else [])
                  (AMIRegionKMSKeyIDs c))
           else [])
     else [])"

text \<open>Lines 263 to 273: the keys to validate.\<close>

definition collect_kmsKeys :: "AMIConfig \<Rightarrow> string list" where
  "collect_kmsKeys c =
    (if length (AMIKmsKeyId c) > 0 then [AMIKmsKeyId c] else []) @
    (if length (AMIRegionKMSKeyIDs c) > 0
     then concat (map (\<lambda>(_, kmsKey). if length kmsKey > 0 then [kmsKey] else [])
            (AMIRegionKMSKeyIDs c))
     else [])"

text \<open>Lines 275 to 284.\<close>

definition check_kmsKeys :: "AMIConfig \<Rightarrow> ami_error list" where
  "check_kmsKeys c =
    (let kmsKeys = collect_kmsKeys c
     in (if length kmsKeys > 0 \<and> \<not> Trilean_True (AMIEncryptBootVolume c)
         then [KmsNeedsEncryptBoot] else []) @
        concat (map (\<lambda>kmsKey. if \<not> ValidateKmsKey kmsKey then [InvalidKmsKey kmsKey] else [])
          kmsKeys))"

text \<open>Lines 300 to 310: the two checks of the name.\<close>

definition check_name :: "AMIConfig \<Rightarrow> ami_error list" where
  "check_name c =
    (if length (AMIName c) < 3 \<or> length (AMIName c) > 128 then [AmiNameLength] else []) @
    (if AMIName c \<noteq> templateCleanAMIName (AMIName c) then [AmiNameCharacters] else [])"

text \<open>Lines 312 to 325.\<close>

definition check_imds_deprecation :: "ami_lib \<Rightarrow> AMIConfig \<Rightarrow> ami_error list" where
  "check_imds_deprecation lib c =
    (if AMIIMDSSupport c \<noteq> [] \<and> AMIIMDSSupport c \<noteq> ImdsSupportValuesV20
     then [InvalidImdsSupport] else []) @
    (if DeprecationTime c \<noteq> []
     then (if \<not> time_Parse_RFC3339 lib (DeprecationTime c)
           then [InvalidDeprecationTime (DeprecationTime c)] else [])
     else [])"

text \<open>
  \<open>AMIConfig.Prepare\<close>. The receiver is a pointer: the result is the slice of errors
  (the empty list is the nil the source returns when there is none) and the config
  after the call.
\<close>

definition Prepare :: "ami_lib \<Rightarrow> AMIConfig \<Rightarrow> AccessConfig option \<Rightarrow> ami_error list \<times> AMIConfig" where
  "Prepare lib c0 accessConfig =
    (let (snapErrs, snapTags) = CopyOn lib (SnapshotTag c0) (SnapshotTags c0);
         c1 = c0\<lparr>SnapshotTags := snapTags\<rparr>;
         (tagErrs, amiTags) = CopyOn lib (AMITag c1) (AMITags c1);
         c2 = c1\<lparr>AMITags := amiTags\<rparr>;
         errs1 = map ExternalError snapErrs @ map ExternalError tagErrs;
         errs2 = errs1 @ (if AMIName c2 = [] then [AmiNameMissing] else []);
         errs3 = errs2 @ check_kms_regions c2;
         (regionErrs, c3) = prepareRegions c2 accessConfig;
         errs4 = errs3 @ regionErrs;
         errs5 = errs4 @ check_share c3
                   (length (AMIUsers c3) > 0 \<or> length (AMIOrgArns c3) > 0 \<or> length (AMIOuArns c3) > 0)
                   ShareDefaultKeyAmi ShareDefaultKeyAmiRegions;
         errs6 = errs5 @ check_kmsKeys c3;
         errs7 = errs6 @ check_share c3 (length (SnapshotUsers c3) > 0)
                   ShareDefaultKeySnapshot ShareDefaultKeySnapshotRegions;
         errs8 = errs7 @ check_name c3;
         errs9 = errs8 @ check_imds_deprecation lib c3;
         c4 = (if WithCooldown (DeregistrationProtection c3)
               then c3\<lparr>DeregistrationProtection := (DeregistrationProtection c3)\<lparr>Enabled := True\<rparr>\<rparr>
               else c3)
     in (errs9, c4))"

section \<open>The import post-processor: configuration (post-processor/import/post-processor.go)\<close>

text \<open>
  The post-processor's \<open>Config\<close>. The embedded \<open>AccessConfig\<close> is the field \<open>Access\<close>;
  the field \<open>AMIIMDSSupport\<close> carries a suffix to keep it apart from the field of
  \<open>AMIConfig\<close> of the same name.
\<close>

record ImportConfig =
  S3Bucket :: string
  S3Key :: string
  S3Encryption :: string
  S3EncryptionKey :: string
  SkipClean :: bool
  Tags :: "(string \<times> string) list"
  Name :: string
  Description :: string
  Users :: "string list"
  Groups :: "string list"
  OrgArns :: "string list"
  OuArns :: "string list"
  Encrypt :: bool
  KMSKey :: string
  AMIIMDSSupport_import :: string
  LicenseType :: string
  RoleName :: string
  Format :: string
  Architecture :: string
  BootMode :: string
  Platform :: string
  Access :: AccessConfig

text \<open>
  The errors \<open>Configure\<close> appends to its \<open>MultiError\<close>, in the order of the source:
  \<^item> \<open>BootModeError e\<close>: the error \<open>e\<close> of \<open>IsValidBootMode\<close>;
  \<^item> \<open>S3KeyTemplateError e\<close>: ``Error parsing s3\_key\_name template: e'';
  \<^item> \<open>AccessConfigError e\<close>: an error \<open>e\<close> of \<open>AccessConfig.Prepare\<close>;
  \<^item> \<open>MissingParameter k\<close>: ``k must be set'';
  \<^item> \<open>InvalidFormat f\<close>: ``invalid format 'f'. Only 'ova', 'raw', 'vhd', 'vhdx', or 'vmdk' are allowed'';
  \<^item> \<open>PlatformRequired p\<close>: ``invalid platform 'p', 'platform' must be set for 'uefi' image imports'';
  \<^item> \<open>InvalidPlatform p\<close>: ``invalid platform 'p'. Only 'linux' and 'windows' are allowed'';
  \<^item> \<open>InvalidS3Encryption e\<close>: ``invalid s3 encryption format 'e'. Only 'AES256' and 'aws:kms' are allowed'';
  \<^item> \<open>InvalidBootMode b\<close>: ``invalid boot mode 'b'. Only 'uefi' and 'legacy-bios' are allowed'';
  \<^item> \<open>InvalidBootModeArm64 b\<close>: ``invalid boot mode 'b' for 'arm64' architecture'';
  \<^item> \<open>InvalidImdsSupportValue\<close>: ``The only valid imds\_support values are "v2.0" or the empty string''.
\<close>

datatype import_error =
    BootModeError string
  | S3KeyTemplateError string
  | AccessConfigError string
  | MissingParameter string
  | InvalidFormat string
  | PlatformRequired string
  | InvalidPlatform string
  | InvalidS3Encryption string
  | InvalidBootMode string
  | InvalidBootModeArm64 string
  | InvalidImdsSupportValue

text \<open>
  What \<open>Configure\<close> returns: nil, the error of \<open>config.Decode\<close> as it is, or the
  \<open>MultiError\<close> with the errors collected.
\<close>

datatype configure_result = NoError | DecodeFailed string | MultiError "import_error list"

text \<open>
  The functions \<open>Configure\<close> calls that are defined elsewhere: \<open>IsValidBootMode\<close> and
  \<open>AccessConfig.Prepare\<close> (in files of the repository that are not at hand; they
  are parameters here), \<open>interpolate.Validate\<close> of the SDK, and the environment.
  An error is \<open>Some\<close>, nil is \<open>None\<close>.
\<close>

record import_lib =
  IsValidBootMode :: "string \<Rightarrow> string option"
  interpolate_Validate :: "string \<Rightarrow> string option"
  AccessConfig_Prepare :: "AccessConfig \<Rightarrow> string list \<times> AccessConfig"
  os_Getenv :: environ

text \<open>Lines 89 to 99: the defaults.\<close>

definition set_defaults :: "ImportConfig \<Rightarrow> ImportConfig" where
  "set_defaults c0 =
    (let c1 = (if Format c0 = [] then c0\<lparr>Format := ''ova''\<rparr> else c0);
         c2 = (if S3Key c1 = [] then c1\<lparr>S3Key := ''packer-import-{{timestamp}}.'' @ Format c1\<rparr> else c1)
     in if Architecture c2 = [] then c2\<lparr>Architecture := ''x86_64''\<rparr> else c2)"

text \<open>Lines 103 to 115: the boot mode, defaulted or validated.\<close>

definition boot_mode_step :: "import_lib \<Rightarrow> ImportConfig \<Rightarrow> import_error list \<times> ImportConfig" where
  "boot_mode_step lib c =
    (if BootMode c = []
     then (if Architecture c = ''arm64'' then ([], c\<lparr>BootMode := ''uefi''\<rparr>)
           else ([], c\<lparr>BootMode := ''legacy-bios''\<rparr>))
     else (case IsValidBootMode lib (BootMode c) of
             Some err \<Rightarrow> ([BootModeError err], c)
           | None \<Rightarrow> ([], c)))"

text \<open>Lines 138 to 176: the checks of the enumerated options.\<close>

definition check_options :: "ImportConfig \<Rightarrow> import_error list" where
  "check_options c =
    (if Format c = ''ova'' \<or> Format c = ''raw'' \<or> Format c = ''vmdk'' \<or> Format c = ''vhd'' \<or>
        Format c = ''vhdx''
     then [] else [InvalidFormat (Format c)]) @
    (if Platform c = ''windows'' \<or> Platform c = ''linux'' then []
     else if Platform c = []
     then (if BootMode c = ''uefi'' then [PlatformRequired (Platform c)] else [])
     else [InvalidPlatform (Platform c)]) @
    (if S3Encryption c \<noteq> [] \<and> S3Encryption c \<noteq> ''AES256'' \<and> S3Encryption c \<noteq> ''aws:kms''
     then [InvalidS3Encryption (S3Encryption c)] else []) @
    (if BootMode c \<noteq> ''legacy-bios'' \<and> BootMode c \<noteq> ''uefi''
     then [InvalidBootMode (BootMode c)] else []) @
    (if Architecture c = ''arm64'' \<and> BootMode c \<noteq> ''uefi''
     then [InvalidBootModeArm64 (BootMode c)] else []) @
    (if AMIIMDSSupport_import c \<noteq> [] \<and> AMIIMDSSupport_import c \<noteq> ImdsSupportValuesV20
     then [InvalidImdsSupportValue] else [])"

text \<open>Lines 101 to 176: all the errors collected, and the config after the checks.\<close>

definition collect_errors :: "import_lib \<Rightarrow> ImportConfig \<Rightarrow> import_error list \<times> ImportConfig" where
  "collect_errors lib c0 =
    (let (bootErrs, c1) = boot_mode_step lib c0;
         keyErrs = (case interpolate_Validate lib (S3Key c1) of
                      Some err \<Rightarrow> [S3KeyTemplateError err] | None \<Rightarrow> []);
         (accessErrs, access) = AccessConfig_Prepare lib (Access c1);
         c2 = c1\<lparr>Access := access\<rparr>;
         bucketErrs = (if S3Bucket c2 = [] then [MissingParameter ''s3_bucket_name''] else [])
     in (bootErrs @ keyErrs @ map AccessConfigError accessErrs @ bucketErrs @ check_options c2, c2))"

text \<open>
  \<open>Configure\<close>. \<open>decodeErr\<close> is the error of \<open>config.Decode\<close> and \<open>c\<close> the config it
  has filled. The result is what \<open>Configure\<close> returns, the config after the call and
  the lines logged by \<open>LogEnvOverrideWarnings\<close>.
\<close>

definition Configure :: "import_lib \<Rightarrow> string option \<Rightarrow> ImportConfig \<Rightarrow> configure_result \<times> ImportConfig \<times> string list" where
  "Configure lib decodeErr c =
    (case decodeErr of
       Some err \<Rightarrow> (DecodeFailed err, c, [])
     | None \<Rightarrow>
         (let (errs, c1) = collect_errors lib (set_defaults c)
          in if length errs > 0 then (MultiError errs, c1, [])
             else (let polling = (case PollingConfig (Access c1) of
                                    None \<Rightarrow> \<lparr>MaxAttempts = 0, DelaySeconds = 0\<rparr>
                                  | Some w \<Rightarrow> w);
                       (polling', logged) = LogEnvOverrideWarnings polling (os_Getenv lib)
                   in (NoError, c1\<lparr>Access := (Access c1)\<lparr>PollingConfig := Some polling'\<rparr>\<rparr>, logged))))"

section \<open>The import post-processor: PostProcess\<close>

text \<open>
  The inputs and outputs of the AWS calls, as far as \<open>PostProcess\<close> writes or reads
  them. A pointer field of the AWS SDK is an \<open>option\<close>, \<open>None\<close> being nil.
\<close>

record UploadInput =
  up_Body :: string
  up_Bucket :: string
  up_Key :: string
  up_ServerSideEncryption :: "string option"
  up_SSEKMSKeyId :: "string option"

record ImportImageInput =
  ii_Encrypted :: bool
  ii_Format :: string
  ii_S3Bucket :: string
  ii_S3Key :: string
  ii_Architecture :: string
  ii_BootMode :: string
  ii_Platform :: string
  ii_KmsKeyId :: "string option"
  ii_RoleName :: "string option"
  ii_LicenseType :: "string option"

record ImportImageTask =
  Status :: "string option"
  StatusMessage :: "string option"
  ImageId :: "string option"

record CopyImageInput =
  ci_Name :: string
  ci_SourceImageId :: string
  ci_SourceRegion :: "string option"
  ci_Encrypted :: "bool option"
  ci_KmsKeyId :: "string option"

datatype LaunchPermission =
    LP_Group string
  | LP_UserId string
  | LP_OrganizationArn string
  | LP_OrganizationalUnitArn string

record ModifyImageAttributeInput =
  mia_Description :: "string option"
  mia_UserGroups :: "string list"
  mia_UserIds :: "string list"
  mia_OrganizationArns :: "string list"
  mia_OrganizationalUnitArns :: "string list"
  mia_LaunchPermissionAdd :: "LaunchPermission list option"
  mia_ImdsSupport :: "string option"
  mia_ImageId :: "string option"

text \<open>
  An image of \<open>DescribeImages\<close>: its block device mappings, each with its \<open>Ebs\<close>
  pointer and, inside, the \<open>SnapshotId\<close> pointer.
\<close>

type_synonym Image = "string option option list"

record ImportArtifact =
  Amis :: "(string \<times> string) list"
  ArtifactBuilderId :: string
  ArtifactSession :: Session

definition BuilderId_import :: string where
  "BuilderId_import = ''packer.post-processor.amazon-import''"

text \<open>
  The world outside: the session, the template engine, the file system, S3 and EC2.
  Each function gives what the call returns for its input: an error is \<open>Some\<close> or
  \<open>Inl\<close>. \<open>ImportImage\<close> is the call under its \<open>retry.Config\<close> (the result after the
  retries), giving the \<open>ImportTaskId\<close> pointer; \<open>CopyImage\<close> gives the \<open>ImageId\<close>
  pointer. \<open>format_resources\<close> is \<open>fmt\<close>'s \<open>%#v\<close> of a slice of string pointers.
\<close>

record aws =
  new_Session :: "string + Session"
  interpolate_Render :: "string \<Rightarrow> string + string"
  os_Open :: "string \<Rightarrow> string option"
  Upload :: "UploadInput \<Rightarrow> string option"
  ImportImage :: "ImportImageInput \<Rightarrow> string + string option"
  WaitUntilImageImported :: "string \<Rightarrow> string option"
  DescribeImportImageTasks :: "string \<Rightarrow> string + ImportImageTask list"
  CopyImage :: "CopyImageInput \<Rightarrow> string + string option"
  WaitUntilAMIAvailable :: "string \<Rightarrow> string option"
  DestroyAMIs :: "string list \<Rightarrow> string option"
  DescribeImages :: "string list \<Rightarrow> string + Image list"
  CreateTags :: "string list \<Rightarrow> (string \<times> string) list \<Rightarrow> string option"
  ModifyImageAttribute :: "ModifyImageAttributeInput \<Rightarrow> string option"
  DeleteObject :: "string \<Rightarrow> string \<Rightarrow> string option"
  format_resources :: "string list \<Rightarrow> string"

text \<open>The remote calls \<open>PostProcess\<close> makes, recorded in the order it makes them.\<close>

datatype api_call =
    Call_Upload UploadInput
  | Call_ImportImage ImportImageInput
  | Call_WaitUntilImageImported string
  | Call_DescribeImportImageTasks string
  | Call_CopyImage CopyImageInput
  | Call_WaitUntilAMIAvailable string
  | Call_DestroyAMIs "string list"
  | Call_DescribeImages "string list"
  | Call_CreateTags "string list" "(string \<times> string) list"
  | Call_ModifyImageAttribute string ModifyImageAttributeInput
  | Call_DeleteObject string string

text \<open>
  A stretch of \<open>PostProcess\<close> ends in a panic, in \<open>return nil, false, false, err\<close>
  (\<open>Returned (Inl err)\<close>) or goes on with a value (\<open>Returned (Inr x)\<close>); with it comes
  the list of the calls made. The messages to the UI and to the log are left out:
  nothing in \<open>PostProcess\<close> reads them back.
\<close>

type_synonym 'a io = "(string + 'a) outcome \<times> api_call list"

definition io_ok :: "'a \<Rightarrow> 'a io" where
  "io_ok a = (Returned (Inr a), [])"

definition io_fail :: "string \<Rightarrow> 'a io" where
  "io_fail e = (Returned (Inl e), [])"

definition io_panic :: "'a io" where
  "io_panic = (Panic, [])"

definition io_call :: "api_call \<Rightarrow> 'a io \<Rightarrow> 'a io" where
  "io_call c m = (fst m, c # snd m)"

definition io_bind :: "'a io \<Rightarrow> ('a \<Rightarrow> 'b io) \<Rightarrow> 'b io" where
  "io_bind m f =
    (case m of
       (Returned (Inr a), t) \<Rightarrow> (case f a of (r, t') \<Rightarrow> (r, t @ t'))
     | (Returned (Inl e), t) \<Rightarrow> (Returned (Inl e), t)
     | (Panic, t) \<Rightarrow> (Panic, t))"

text \<open>Lines 217 to 223: the first file of the artifact with the suffix of the format.\<close>

fun find_source :: "string \<Rightarrow> string list \<Rightarrow> string" where
  "find_source fmt [] = []"
| "find_source fmt (path # rest) =
     (if suffix (''.'' @ fmt) path then path else find_source fmt rest)"

text \<open>
  Lines 202 to 228: the session, the rendered \<open>s3_key_name\<close> (stored back in the
  config) and the source file.
\<close>

definition locate_phase :: "aws \<Rightarrow> ImportConfig \<Rightarrow> string list \<Rightarrow> (Session \<times> ImportConfig \<times> string) io" where
  "locate_phase w c files =
    (case new_Session w of
       Inl err \<Rightarrow> io_fail err
     | Inr session \<Rightarrow>
         (case interpolate_Render w (S3Key c) of
            Inl err \<Rightarrow> io_fail (''Error rendering s3_key_name template: '' @ err)
          | Inr key \<Rightarrow>
              (let source = find_source (Format c) files
               in if source = []
                  then io_fail (''No '' @ Format c @ '' image file found in artifact from builder'')
                  else io_ok (session, c\<lparr>S3Key := key\<rparr>, source))))"

text \<open>Lines 244 to 256: the request of the upload.\<close>

definition upload_input :: "ImportConfig \<Rightarrow> string \<Rightarrow> UploadInput" where
  "upload_input c source =
    \<lparr>up_Body = source, up_Bucket = S3Bucket c, up_Key = S3Key c,
     up_ServerSideEncryption = (if S3Encryption c \<noteq> [] then Some (S3Encryption c) else None),
     up_SSEKMSKeyId = (if S3Encryption c \<noteq> [] \<and> S3Encryption c = ''aws:kms'' \<and>
                          S3EncryptionKey c \<noteq> []
                       then Some (S3EncryptionKey c) else None)\<rparr>"

text \<open>Lines 234 to 267: the upload to S3.\<close>

definition upload_phase :: "aws \<Rightarrow> ImportConfig \<Rightarrow> string \<Rightarrow> unit io" where
  "upload_phase w c source =
    (case os_Open w source of
       Some err \<Rightarrow> io_fail (''Failed to open '' @ source @ '': '' @ err)
     | None \<Rightarrow>
         io_call (Call_Upload (upload_input c source))
           (case Upload w (upload_input c source) of
              Some err \<Rightarrow> io_fail (''Failed to upload '' @ source @ '': '' @ err)
            | None \<Rightarrow> io_ok ()))"

text \<open>Lines 273 to 300: the parameters of the import.\<close>

definition import_params :: "ImportConfig \<Rightarrow> ImportImageInput" where
  "import_params c =
    \<lparr>ii_Encrypted = Encrypt c, ii_Format = Format c, ii_S3Bucket = S3Bucket c,
     ii_S3Key = S3Key c, ii_Architecture = Architecture c, ii_BootMode = BootMode c,
     ii_Platform = Platform c,
     ii_KmsKeyId = (if Encrypt c \<and> KMSKey c \<noteq> [] then Some (KMSKey c) else None),
     ii_RoleName = (if RoleName c \<noteq> [] then Some (RoleName c) else None),
     ii_LicenseType = (if LicenseType c \<noteq> [] then Some (LicenseType c) else None)\<rparr>"

text \<open>Lines 272 to 315: the start of the import; the result is the task id.\<close>

definition start_import_phase :: "aws \<Rightarrow> ImportConfig \<Rightarrow> string io" where
  "start_import_phase w c =
    io_call (Call_ImportImage (import_params c))
      (case ImportImage w (import_params c) of
         Inl err \<Rightarrow> io_fail (''Failed to start import from s3://'' @ S3Bucket c @ ''/'' @ S3Key c @
                               '': '' @ err)
       | Inr None \<Rightarrow> io_panic
       | Inr (Some taskId) \<Rightarrow> io_ok taskId)"

text \<open>The two errors of the wait (lines 334 and 350).\<close>

definition waiter_failure :: "string \<Rightarrow> string \<Rightarrow> string \<Rightarrow> string" where
  "waiter_failure taskId statusMessage err =
     ''Import task '' @ taskId @ '' failed with status message: '' @ statusMessage @
     '', error: '' @ err"

definition job_failure :: "string \<Rightarrow> string \<Rightarrow> string" where
  "job_failure taskId statusMessage = ''Import task '' @ taskId @ '' failed: '' @ statusMessage"

text \<open>
  Lines 319 to 356: the wait for the import task and its outcome; the result is the
  id of the imported image. \<open>ImportImageTasks[0]\<close> panics on an empty slice, and so
  does the dereference of a nil \<open>StatusMessage\<close>, \<open>Status\<close> or \<open>ImageId\<close>.
\<close>

definition await_import_phase :: "aws \<Rightarrow> string \<Rightarrow> string io" where
  "await_import_phase w taskId =
    io_call (Call_WaitUntilImageImported taskId)
      (io_call (Call_DescribeImportImageTasks taskId)
        (case WaitUntilImageImported w taskId of
           Some err \<Rightarrow>
             (case DescribeImportImageTasks w taskId of
                Inl err2 \<Rightarrow> io_fail (waiter_failure taskId ''Error retrieving status message'' err)
              | Inr [] \<Rightarrow> io_panic
              | Inr (task # _) \<Rightarrow>
                  (case StatusMessage task of
                     None \<Rightarrow> io_panic
                   | Some statusMessage \<Rightarrow> io_fail (waiter_failure taskId statusMessage err)))
         | None \<Rightarrow>
             (case DescribeImportImageTasks w taskId of
                Inl err \<Rightarrow> io_fail (''Failed to find import task '' @ taskId @ '': '' @ err)
              | Inr [] \<Rightarrow> io_panic
              | Inr (task # _) \<Rightarrow>
                  (case Status task of
                     None \<Rightarrow> io_panic
                   | Some status \<Rightarrow>
                       if status \<noteq> ''completed''
                       then (case StatusMessage task of
                               None \<Rightarrow> io_panic
                             | Some statusMessage \<Rightarrow> io_fail (job_failure taskId statusMessage))
                       else (case ImageId task of
                               None \<Rightarrow> io_panic
                             | Some createdami \<Rightarrow> io_ok createdami)))))"

text \<open>Lines 362 to 372: the request of the copy.\<close>

definition copy_input :: "ImportConfig \<Rightarrow> Session \<Rightarrow> string \<Rightarrow> CopyImageInput" where
  "copy_input c session createdami =
    \<lparr>ci_Name = Name c, ci_SourceImageId = createdami, ci_SourceRegion = Region session,
     ci_Encrypted = (if Encrypt c then Some (Encrypt c) else None),
     ci_KmsKeyId = (if Encrypt c \<and> KMSKey c \<noteq> [] then Some (KMSKey c) else None)\<rparr>"

text \<open>
  Lines 358 to 396: the rename, when \<open>ami_name\<close> is set; the result is the id that
  \<open>createdami\<close> holds afterwards.
\<close>

definition rename_phase :: "aws \<Rightarrow> ImportConfig \<Rightarrow> Session \<Rightarrow> string \<Rightarrow> string io" where
  "rename_phase w c session createdami =
    (if Name c \<noteq> []
     then io_call (Call_CopyImage (copy_input c session createdami))
            (case CopyImage w (copy_input c session createdami) of
               Inl err \<Rightarrow> io_fail (''Error Copying AMI ('' @ createdami @ ''): '' @ err)
             | Inr None \<Rightarrow> io_panic
             | Inr (Some copied) \<Rightarrow>
                 io_call (Call_WaitUntilAMIAvailable copied)
                   (case WaitUntilAMIAvailable w copied of
                      Some err \<Rightarrow> io_fail (''Error waiting for AMI ('' @ copied @ ''): '' @ err)
                    | None \<Rightarrow>
                        io_call (Call_DestroyAMIs [createdami])
                          (case DestroyAMIs w [createdami] of
                             Some err \<Rightarrow> io_fail (''Error deregistering existing AMI: '' @ err)
                           | None \<Rightarrow> io_ok copied)))
     else io_ok createdami)"

text \<open>Lines 433 to 438: the snapshots of the image's block device mappings.\<close>

definition snapshot_ids :: "Image \<Rightarrow> string list" where
  "snapshot_ids img =
     concat (map (\<lambda>device. case device of Some (Some snapshotId) \<Rightarrow> [snapshotId] | _ \<Rightarrow> []) img)"

text \<open>Lines 400 to 451: the tags, on the image and its snapshots.\<close>

definition tagging_phase :: "aws \<Rightarrow> ImportConfig \<Rightarrow> string \<Rightarrow> unit io" where
  "tagging_phase w c createdami =
    (if length (Tags c) > 0
     then io_call (Call_DescribeImages [createdami])
            (case DescribeImages w [createdami] of
               Inl err \<Rightarrow> io_fail (''Failed to retrieve details for AMI '' @ createdami @ '': '' @ err)
             | Inr [] \<Rightarrow> io_fail (''AMI '' @ createdami @ '' has no images'')
             | Inr (img # _) \<Rightarrow>
                 (let resourceIds = createdami # snapshot_ids img
                  in io_call (Call_CreateTags resourceIds (Tags c))
                       (case CreateTags w resourceIds (Tags c) of
                          Some err \<Rightarrow> io_fail (''Failed to add tags to resources '' @
                                                format_resources w resourceIds @ '': '' @ err)
                        | None \<Rightarrow> io_ok ())))
     else io_ok ())"

text \<open>
  Lines 455 to 531: the map \<open>options\<close> of the modification requests, as the list of
  its entries in the order the source adds them (the keys are distinct).
\<close>

definition no_modification :: ModifyImageAttributeInput where
  "no_modification = \<lparr>mia_Description = None, mia_UserGroups = [], mia_UserIds = [],
     mia_OrganizationArns = [], mia_OrganizationalUnitArns = [],
     mia_LaunchPermissionAdd = None, mia_ImdsSupport = None, mia_ImageId = None\<rparr>"

definition build_options :: "ImportConfig \<Rightarrow> (string \<times> ModifyImageAttributeInput) list" where
  "build_options c =
    (if Description c \<noteq> []
     then [(''description'', no_modification\<lparr>mia_Description := Some (Description c)\<rparr>)] else []) @
    (if length (Groups c) > 0
     then [(''groups'', no_modification\<lparr>mia_UserGroups := Groups c,
              mia_LaunchPermissionAdd := Some (map LP_Group (Groups c))\<rparr>)] else []) @
    (if length (Users c) > 0
     then [(''users'', no_modification\<lparr>mia_UserIds := Users c,
              mia_LaunchPermissionAdd := Some (map LP_UserId (Users c))\<rparr>)] else []) @
    (if length (OrgArns c) > 0
     then [(''ami org arns'', no_modification\<lparr>mia_OrganizationArns := OrgArns c,
              mia_LaunchPermissionAdd := Some (map LP_OrganizationArn (OrgArns c))\<rparr>)] else []) @
    (if length (OuArns c) > 0
     then [(''ami ou arns'', no_modification\<lparr>mia_OrganizationalUnitArns := OuArns c,
              mia_LaunchPermissionAdd := Some (map LP_OrganizationalUnitArn (OuArns c))\<rparr>)] else []) @
    (if AMIIMDSSupport_import c \<noteq> []
     then [(''ami imds support'', no_modification\<lparr>mia_ImdsSupport := Some (AMIIMDSSupport_import c)\<rparr>)]
     else [])"

text \<open>
  Lines 533 to 542: one \<open>ModifyImageAttribute\<close> for each entry, stopping at the first
  error. Go leaves the order of the entries open; the model takes them in the order
  of the list.
\<close>

fun modify_attributes :: "aws \<Rightarrow> string \<Rightarrow> (string \<times> ModifyImageAttributeInput) list \<Rightarrow> unit io" where
  "modify_attributes w createdami [] = io_ok ()"
| "modify_attributes w createdami ((name, input) # rest) =
     (let input' = input\<lparr>mia_ImageId := Some createdami\<rparr>
      in io_call (Call_ModifyImageAttribute name input')
           (case ModifyImageAttribute w input' of
              Some err \<Rightarrow> io_fail (''Error modifying AMI attributes: '' @ err)
            | None \<Rightarrow> modify_attributes w createdami rest))"

text \<open>
  Lines 544 to 566: the artifact, and the deletion of the uploaded object. The log
  line 545 dereferences the session's region.
\<close>

definition finish_phase :: "aws \<Rightarrow> ImportConfig \<Rightarrow> Session \<Rightarrow> string \<Rightarrow> ImportArtifact io" where
  "finish_phase w c session createdami =
    (case Region session of
       None \<Rightarrow> io_panic
     | Some region \<Rightarrow>
         (let artifact = \<lparr>Amis = [(region, createdami)], ArtifactBuilderId = BuilderId_import,
                ArtifactSession = session\<rparr>
          in if \<not> SkipClean c
             then io_call (Call_DeleteObject (S3Bucket c) (S3Key c))
                    (case DeleteObject w (S3Bucket c) (S3Key c) of
                       Some err \<Rightarrow> io_fail (''Failed to delete s3://'' @ S3Bucket c @ ''/'' @ S3Key c @
                                             '': '' @ err)
                     | None \<Rightarrow> io_ok artifact)
             else io_ok artifact))"

text \<open>Lines 356 to 566: everything after the import task has completed.\<close>

definition after_import :: "aws \<Rightarrow> ImportConfig \<Rightarrow> Session \<Rightarrow> string \<Rightarrow> ImportArtifact io" where
  "after_import w c session imported =
    io_bind (rename_phase w c session imported) (\<lambda>createdami.
    io_bind (tagging_phase w c createdami) (\<lambda>_.
    io_bind (modify_attributes w createdami (build_options c)) (\<lambda>_.
    finish_phase w c session createdami)))"

text \<open>
  \<open>PostProcess\<close>. \<open>files\<close> is \<open>artifact.Files()\<close> of the artifact handed in. The
  result is the artifact or the error returned (the two booleans returned are
  always false), and the calls made.
\<close>

definition PostProcess :: "aws \<Rightarrow> ImportConfig \<Rightarrow> string list \<Rightarrow> ImportArtifact io" where
  "PostProcess w c0 files =
    io_bind (locate_phase w c0 files) (\<lambda>(session, c, source).
    io_bind (upload_phase w c source) (\<lambda>_.
    io_bind (start_import_phase w c) (\<lambda>taskId.
    io_bind (await_import_phase w taskId) (\<lambda>imported.
    after_import w c session imported))))"

section \<open>Sample inputs\<close>

text \<open>Concrete values at which the theorems below are instantiated.\<close>

definition sample_lib :: pathlib where
  "sample_lib = \<lparr>Render = (\<lambda>_ t _. Inr t), Abs = (\<lambda>p. Inr (''/work/'' @ p)), Base = (\<lambda>d. d)\<rparr>"

definition failing_lib :: pathlib where
  "failing_lib = \<lparr>Render = (\<lambda>_ _ _. Inl ''template: unexpected }''), Abs = (\<lambda>p. Inr p), Base = (\<lambda>d. d)\<rparr>"

definition sample_bag :: StateBag where
  "sample_bag = [''config'' \<mapsto> ConfigVal \<lparr>NVMEDevicePath = [], MountPath = ''mnt''\<rparr>,
                 ''device'' \<mapsto> StringVal ''/dev/xvdf'',
                 ''ui'' \<mapsto> UiVal]"

definition sample_step :: "string \<Rightarrow> StepManualMountCommand" where
  "sample_step cmd = \<lparr>Command = cmd, mountPath = [], GeneratedData = Some []\<rparr>"

definition sample_session :: Session where
  "sample_session = \<lparr>Region = Some ''us-east-1''\<rparr>"

definition failing_runner :: "StateBag \<Rightarrow> StateBag" where
  "failing_runner st = st(''error'' \<mapsto> ErrorVal ''Error launching source instance'')"

definition succeeding_runner :: "StateBag \<Rightarrow> StateBag" where
  "succeeding_runner st = st(''ebsvolumes'' \<mapsto> EbsVolumesVal [(''us-east-1'', [''vol-1''])],
                             ''ebssnapshots'' \<mapsto> EbsSnapshotsVal [])"

definition sample_key_id :: string where
  "sample_key_id = ''1234abcd-12ab-34cd-56ef-1234567890ab''"

definition sample_access :: AccessConfig where
  "sample_access = \<lparr>RawRegion = ''us-east-1'', PollingConfig = None\<rparr>"

definition sample_import_config :: ImportConfig where
  "sample_import_config =
    \<lparr>S3Bucket = ''bucket'', S3Key = ''import.ova'', S3Encryption = [], S3EncryptionKey = [],
     SkipClean = False, Tags = [], Name = [], Description = [], Users = [''111111111111''],
     Groups = [], OrgArns = [], OuArns = [], Encrypt = False, KMSKey = [],
     AMIIMDSSupport_import = [], LicenseType = [], RoleName = [], Format = ''ova'',
     Architecture = ''x86_64'', BootMode = ''legacy-bios'', Platform = ''linux'',
     Access = sample_access\<rparr>"

definition sample_ami_lib :: ami_lib where
  "sample_ami_lib = \<lparr>CopyOn = (\<lambda>kvs m. ([], m @ kvs)), time_Parse_RFC3339 = (\<lambda>_. True)\<rparr>"

definition sample_ami_config :: "string \<Rightarrow> AMIConfig" where
  "sample_ami_config n =
    \<lparr>AMIName = n, AMIUsers = [], AMIOrgArns = [], AMIOuArns = [], AMIRegions = [],
     AMITags = [], AMITag = [], AMIEncryptBootVolume = TriUnset, AMIKmsKeyId = [],
     AMIRegionKMSKeyIDs = [], AMIIMDSSupport = [], DeprecationTime = [], SnapshotTags = [],
     SnapshotTag = [], SnapshotUsers = [],
     DeregistrationProtection = \<lparr>Enabled = False, WithCooldown = False\<rparr>\<rparr>"



definition sample_aws :: "string option \<Rightarrow> string + ImportImageTask list \<Rightarrow> aws" where
  "sample_aws waited described =
    \<lparr>new_Session = Inr sample_session,
     interpolate_Render = (\<lambda>k. Inr k),
     os_Open = (\<lambda>_. None),
     Upload = (\<lambda>_. None),
     ImportImage = (\<lambda>_. Inr (Some ''import-ami-1'')),
     WaitUntilImageImported = (\<lambda>_. waited),
     DescribeImportImageTasks = (\<lambda>_. described),
     CopyImage = (\<lambda>_. Inr (Some ''ami-copied'')),
     WaitUntilAMIAvailable = (\<lambda>_. None),
     DestroyAMIs = (\<lambda>_. None),
     DescribeImages = (\<lambda>_. Inr [[Some (Some ''snap-1'')]]),
     CreateTags = (\<lambda>_ _. None),
     ModifyImageAttribute = (\<lambda>_. None),
     DeleteObject = (\<lambda>_ _. None),
     format_resources = concat\<rparr>"


definition failed_task :: ImportImageTask where
  "failed_task = \<lparr>Status = Some ''deleted'',
     StatusMessage = Some ''ClientError: Unsupported kernel version'', ImageId = None\<rparr>"

definition silent_task :: ImportImageTask where
  "silent_task = \<lparr>Status = Some ''active'', StatusMessage = None, ImageId = None\<rparr>"


section \<open>Properties of the polling configuration\<close>

lemma polling_messages_distinct:
  "distinct [warn_both, warn_both_nodelay, warn_timeout_deprecated, info_no_overrides]"
  by (simp add: warn_both_def warn_both_nodelay_def warn_timeout_deprecated_def info_no_overrides_def)

text \<open>
  Claim C10, as amended. \<open>LogEnvOverrideWarnings\<close> leaves the receiver as it is
  (so \<open>MaxAttempts\<close> and \<open>DelaySeconds\<close> are unchanged) and logs at most one line,
  which tells the precedence path taken:
  \<^item> with \<open>AWS_TIMEOUT_SECONDS\<close> set and the maximum of attempts set (by the field or
    by \<open>AWS_MAX_ATTEMPTS\<close>), the warning that the timeout is discarded, ending in the
    note on the 2-second delay when no poll delay is set;
  \<^item> with \<open>AWS_TIMEOUT_SECONDS\<close> set and no maximum of attempts, the deprecation
    warning;
  \<^item> with neither the two fields nor any of the three variables set, the note that
    the waiter's defaults apply;
  \<^item> in every other case, that is with the maximum of attempts or the poll delay set
    and \<open>AWS_TIMEOUT_SECONDS\<close> not, nothing.
  The four texts are different from one another and none is empty.
\<close>

theorem LogEnvOverrideWarnings_messages:
  "fst (LogEnvOverrideWarnings w getenv) = w \<and>
   length (snd (LogEnvOverrideWarnings w getenv)) \<le> 1 \<and>
   (length (snd (LogEnvOverrideWarnings w getenv)) = 1) =
     (getenv ''AWS_TIMEOUT_SECONDS'' \<noteq> [] \<or>
      (getenv ''AWS_MAX_ATTEMPTS'' = [] \<and> MaxAttempts w = 0 \<and>
       getenv ''AWS_POLL_DELAY_SECONDS'' = [] \<and> DelaySeconds w = 0)) \<and>
   snd (LogEnvOverrideWarnings w getenv) =
     (if getenv ''AWS_TIMEOUT_SECONDS'' \<noteq> []
      then (if getenv ''AWS_MAX_ATTEMPTS'' \<noteq> [] \<or> MaxAttempts w \<noteq> 0
            then (if getenv ''AWS_POLL_DELAY_SECONDS'' \<noteq> [] \<or> DelaySeconds w \<noteq> 0
                  then [warn_both] else [warn_both_nodelay])
            else [warn_timeout_deprecated])
      else (if getenv ''AWS_MAX_ATTEMPTS'' = [] \<and> MaxAttempts w = 0 \<and>
               getenv ''AWS_POLL_DELAY_SECONDS'' = [] \<and> DelaySeconds w = 0
            then [info_no_overrides] else [])) \<and>
   distinct [warn_both, warn_both_nodelay, warn_timeout_deprecated, info_no_overrides] \<and>
   [] \<notin> set [warn_both, warn_both_nodelay, warn_timeout_deprecated, info_no_overrides]"
  using polling_messages_distinct
  by (auto simp add: LogEnvOverrideWarnings_def Let_def warn_both_def warn_both_nodelay_def
      warn_timeout_deprecated_def info_no_overrides_def)

theorem LogEnvOverrideWarnings_messages_witness:
  "fst (LogEnvOverrideWarnings \<lparr>MaxAttempts = 0, DelaySeconds = 0\<rparr> no_env) = \<lparr>MaxAttempts = 0, DelaySeconds = 0\<rparr> \<and>
   snd (LogEnvOverrideWarnings \<lparr>MaxAttempts = 0, DelaySeconds = 0\<rparr> no_env) = [info_no_overrides]"
  using LogEnvOverrideWarnings_messages [of "\<lparr>MaxAttempts = 0, DelaySeconds = 0\<rparr>" no_env]
  by (simp add: no_env_def)

text \<open>
  With \<open>max_attempts = 5\<close> in the configuration and none of the variables set, the call
  logs no line at all, where claim C10 promises exactly one.
\<close>

theorem LogEnvOverrideWarnings_silent_counterexample:
  "snd (LogEnvOverrideWarnings \<lparr>MaxAttempts = 5, DelaySeconds = 0\<rparr> no_env) = []"
  by (simp add: LogEnvOverrideWarnings_def no_env_def Let_def)

section \<open>Properties of StepManualMountCommand\<close>

lemma Run_no_commands: "Run s lib st = Returned r \<Longrightarrow> commands r = []"
  by (auto simp add: Run_def mount_body_def mount_publish_def mount_halt_def Let_def
      split: option.splits bagval.splits sum.splits if_splits)

lemma Run_halt_error:
  "Run s lib st = Returned r \<Longrightarrow> action r = ActionHalt \<Longrightarrow>
   \<exists>err. bag r ''error'' = Some (ErrorVal (''Error preparing mount directory: '' @ err))"
  by (auto simp add: Run_def mount_body_def mount_publish_def mount_halt_def Let_def
      split: option.splits bagval.splits sum.splits if_splits)

lemma Run_continue_no_error:
  "Run s lib st = Returned r \<Longrightarrow> action r = ActionContinue \<Longrightarrow> bag r ''error'' = st ''error''"
  by (auto simp add: Run_def mount_body_def mount_publish_def mount_halt_def Let_def
      split: option.splits bagval.splits sum.splits if_splits)

lemma Run_publishes:
  assumes "st ''config'' = Some (ConfigVal config)"
    and "st ''device'' = Some (StringVal device0)"
    and "st ''ui'' = Some UiVal"
    and "Command s \<noteq> []"
    and "GeneratedData s = Some gd"
    and "Render lib config (MountPath config)
           (Base lib (if NVMEDevicePath config \<noteq> [] then NVMEDevicePath config else device0)) = Inr p0"
    and "Abs lib p0 = Inr p"
  shows "\<exists>r. Run s lib st = Returned r \<and> action r = ActionContinue \<and>
           bag r ''mount_path'' = Some (StringVal p) \<and>
           bag r ''mount_device_cleanup'' = Some (StepVal (receiver r)) \<and>
           mountPath (receiver r) = p \<and> commands r = []"
  using assms by (simp add: Run_def mount_body_def mount_publish_def Let_def)

lemma Run_empty_command:
  assumes "st ''config'' = Some (ConfigVal config)"
    and "st ''device'' = Some (StringVal device0)"
    and "st ''ui'' = Some UiVal"
    and "Command s = []"
  shows "\<exists>r. Run s lib st = Returned r \<and> action r = ActionContinue \<and> bag r = st \<and>
           receiver r = s \<and> commands r = []"
  using assms by (simp add: Run_def mount_body_def Let_def)

lemma CleanupFunc_nil: "CleanupFunc s st = Returned (e, u, c) \<Longrightarrow> e = None \<and> c = []"
  by (auto simp add: CleanupFunc_def split: if_splits option.splits bagval.splits)

lemma CleanupFunc_returns:
  "mountPath s = [] \<or> st ''ui'' = Some UiVal \<Longrightarrow> \<exists>u. CleanupFunc s st = Returned (None, u, [])"
  by (auto simp add: CleanupFunc_def)

text \<open>
  Claim C4, as amended. No call of \<open>Run\<close> executes an external command. When the
  state bag holds the values the type assertions of \<open>Run\<close> require (a config, a device
  string and a UI), the step's \<open>GeneratedData\<close> is not nil, \<open>Command\<close> is not empty, and
  rendering \<open>config.MountPath\<close> and resolving it to an absolute path succeed, \<open>Run\<close>
  returns \<open>ActionContinue\<close> and publishes \<open>mount_path\<close> and \<open>mount_device_cleanup\<close>.
  When \<open>Command\<close> is empty, \<open>Run\<close> returns \<open>ActionContinue\<close> and leaves the state bag
  as it was. \<open>CleanupFunc\<close> never returns an error and never executes a command; it
  returns nil whenever \<open>mountPath\<close> is empty or the state bag holds a UI.
\<close>

theorem StepManualMountCommand_runs_no_command:
  "(\<forall>r. Run s lib st = Returned r \<longrightarrow> commands r = []) \<and>
   (st ''config'' = Some (ConfigVal config) \<and> st ''device'' = Some (StringVal device0) \<and>
    st ''ui'' = Some UiVal \<longrightarrow>
      (Command s \<noteq> [] \<and> GeneratedData s = Some gd \<and>
       Render lib config (MountPath config)
         (Base lib (if NVMEDevicePath config \<noteq> [] then NVMEDevicePath config else device0)) = Inr p0 \<and>
       Abs lib p0 = Inr p \<longrightarrow>
         (\<exists>r. Run s lib st = Returned r \<and> action r = ActionContinue \<and>
              bag r ''mount_path'' = Some (StringVal p) \<and>
              bag r ''mount_device_cleanup'' = Some (StepVal (receiver r)) \<and>
              mountPath (receiver r) = p)) \<and>
      (Command s = [] \<longrightarrow>
         (\<exists>r. Run s lib st = Returned r \<and> action r = ActionContinue \<and> bag r = st))) \<and>
   (\<forall>e u c. CleanupFunc s' st' = Returned (e, u, c) \<longrightarrow> e = None \<and> c = []) \<and>
   (mountPath s' = [] \<or> st' ''ui'' = Some UiVal \<longrightarrow>
      (\<exists>u. CleanupFunc s' st' = Returned (None, u, [])))"
proof -
  have no_cmd: "\<forall>r. Run s lib st = Returned r \<longrightarrow> commands r = []"
    using Run_no_commands by blast
  have cleanup: "\<forall>e u c. CleanupFunc s' st' = Returned (e, u, c) \<longrightarrow> e = None \<and> c = []"
    using CleanupFunc_nil by blast
  have publish: "\<exists>r. Run s lib st = Returned r \<and> action r = ActionContinue \<and>
              bag r ''mount_path'' = Some (StringVal p) \<and>
              bag r ''mount_device_cleanup'' = Some (StepVal (receiver r)) \<and>
              mountPath (receiver r) = p"
    if "st ''config'' = Some (ConfigVal config)" "st ''device'' = Some (StringVal device0)"
      "st ''ui'' = Some UiVal" "Command s \<noteq> []" "GeneratedData s = Some gd"
      "Render lib config (MountPath config)
         (Base lib (if NVMEDevicePath config \<noteq> [] then NVMEDevicePath config else device0)) = Inr p0"
      "Abs lib p0 = Inr p"
    using Run_publishes [OF that] by blast
  have skip: "\<exists>r. Run s lib st = Returned r \<and> action r = ActionContinue \<and> bag r = st"
    if "st ''config'' = Some (ConfigVal config)" "st ''device'' = Some (StringVal device0)"
      "st ''ui'' = Some UiVal" "Command s = []"
    using Run_empty_command [OF that] by blast
  show ?thesis
    using no_cmd cleanup publish skip CleanupFunc_returns [of s' st'] by blast
qed

theorem StepManualMountCommand_runs_no_command_witness:
  "(\<exists>r. Run (sample_step ''mount -o rw'') sample_lib sample_bag = Returned r \<and>
        action r = ActionContinue \<and> commands r = [] \<and>
        bag r ''mount_path'' = Some (StringVal ''/work/mnt'') \<and>
        bag r ''mount_device_cleanup'' = Some (StepVal (receiver r))) \<and>
   (\<exists>u. CleanupFunc (sample_step ''mount -o rw'') sample_bag = Returned (None, u, []))"
proof -
  have c: "sample_bag ''config'' = Some (ConfigVal \<lparr>NVMEDevicePath = [], MountPath = ''mnt''\<rparr>)"
    and d: "sample_bag ''device'' = Some (StringVal ''/dev/xvdf'')"
    and u: "sample_bag ''ui'' = Some UiVal"
    by (simp_all add: sample_bag_def)
  have pre: "Command (sample_step ''mount -o rw'') \<noteq> [] \<and>
      GeneratedData (sample_step ''mount -o rw'') = Some [] \<and>
      Render sample_lib \<lparr>NVMEDevicePath = [], MountPath = ''mnt''\<rparr>
        (MountPath \<lparr>NVMEDevicePath = [], MountPath = ''mnt''\<rparr>)
        (Base sample_lib (if NVMEDevicePath \<lparr>NVMEDevicePath = [], MountPath = ''mnt''\<rparr> \<noteq> []
           then NVMEDevicePath \<lparr>NVMEDevicePath = [], MountPath = ''mnt''\<rparr> else ''/dev/xvdf'')) = Inr ''mnt'' \<and>
      Abs sample_lib ''mnt'' = Inr ''/work/mnt''"
    by (simp add: sample_step_def sample_lib_def)
  have m: "mountPath (sample_step ''mount -o rw'') = []"
    by (simp add: sample_step_def)
  show ?thesis
    using StepManualMountCommand_runs_no_command
      [of "sample_step ''mount -o rw''" sample_lib sample_bag
          "\<lparr>NVMEDevicePath = [], MountPath = ''mnt''\<rparr>" "''/dev/xvdf''" "[]" "''mnt''" "''/work/mnt''"
          "sample_step ''mount -o rw''" sample_bag]
      c d u pre m
    by blast
qed

text \<open>
  Where claim C4 fails as stated. With an empty \<open>Command\<close>, in a state bag for which
  rendering and resolving the mount path would succeed, \<open>Run\<close> returns
  \<open>ActionContinue\<close> and publishes neither key. With a mount path set and no UI in the
  state bag, \<open>CleanupFunc\<close> does not return nil: its type assertion panics.
\<close>

theorem StepManualMountCommand_publish_counterexample:
  "Render sample_lib \<lparr>NVMEDevicePath = [], MountPath = ''mnt''\<rparr> ''mnt'' (Base sample_lib ''/dev/xvdf'') = Inr ''mnt'' \<and>
   Abs sample_lib ''mnt'' = Inr ''/work/mnt'' \<and>
   Run (sample_step []) sample_lib sample_bag =
     Returned \<lparr>action = ActionContinue, receiver = sample_step [], bag = sample_bag,
       ui = [Say ''Running manual mount commands...'', Say ''Command is: ''], commands = []\<rparr> \<and>
   sample_bag ''mount_path'' = None \<and> sample_bag ''mount_device_cleanup'' = None \<and>
   CleanupFunc \<lparr>Command = ''mount'', mountPath = ''/work/mnt'', GeneratedData = Some []\<rparr> Map.empty = Panic"
  by (simp add: Run_def mount_body_def sample_step_def sample_lib_def sample_bag_def
      CleanupFunc_def Let_def)

section \<open>Properties of the ebsvolume builder's Run\<close>

lemma Builder_Run_error:
  "Region sess = Some rg \<Longrightarrow> runner (initial_bag sess) ''error'' = Some (ErrorVal e) \<Longrightarrow>
   Builder_Run (Inr sess) runner = Returned (None, Some e)"
  by (simp add: Builder_Run_def collect_artifact_def)

lemma Builder_Run_artifact:
  "Region sess = Some rg \<Longrightarrow> runner (initial_bag sess) ''error'' = None \<Longrightarrow>
   runner (initial_bag sess) ''ebsvolumes'' = Some (EbsVolumesVal vols) \<Longrightarrow>
   runner (initial_bag sess) ''ebssnapshots'' = Some (EbsSnapshotsVal snaps) \<Longrightarrow>
   Builder_Run (Inr sess) runner =
     Returned (Some \<lparr>Volumes = vols, Snapshots = snaps, BuilderIdValue = BuilderId_ebsvolume,
                     Conn = sess,
                     StateData = [(''generated_data'', runner (initial_bag sess) ''generated_data'')]\<rparr>,
               None)"
  by (simp add: Builder_Run_def collect_artifact_def)

lemma Run_render_failure:
  assumes "st ''config'' = Some (ConfigVal config)"
    and "st ''device'' = Some (StringVal device0)"
    and "st ''ui'' = Some UiVal"
    and "Command s \<noteq> []"
    and "Render lib config (MountPath config)
           (Base lib (if NVMEDevicePath config \<noteq> [] then NVMEDevicePath config else device0)) = Inl err"
  shows "\<exists>r. Run s lib st = Returned r \<and> action r = ActionHalt \<and>
           bag r = st(''error'' \<mapsto> ErrorVal (''Error preparing mount directory: '' @ err)) \<and>
           receiver r = s \<and> commands r = []"
  using assms by (simp add: Run_def mount_body_def mount_halt_def Let_def)

lemma Run_abs_failure:
  assumes "st ''config'' = Some (ConfigVal config)"
    and "st ''device'' = Some (StringVal device0)"
    and "st ''ui'' = Some UiVal"
    and "Command s \<noteq> []"
    and "Render lib config (MountPath config)
           (Base lib (if NVMEDevicePath config \<noteq> [] then NVMEDevicePath config else device0)) = Inr p0"
    and "Abs lib p0 = Inl err"
  shows "\<exists>r. Run s lib st = Returned r \<and> action r = ActionHalt \<and>
           bag r = st(''error'' \<mapsto> ErrorVal (''Error preparing mount directory: '' @ err)) \<and>
           receiver r = s \<and> commands r = []"
  using assms by (simp add: Run_def mount_body_def mount_halt_def Let_def)

lemma Builder_Run_no_volumes:
  "Region sess = Some rg \<Longrightarrow> runner (initial_bag sess) ''error'' = None \<Longrightarrow>
   runner (initial_bag sess) ''ebsvolumes'' = None \<or> runner (initial_bag sess) ''ebssnapshots'' = None \<Longrightarrow>
   Builder_Run (Inr sess) runner = Panic"
  by (auto simp add: Builder_Run_def collect_artifact_def split: option.splits bagval.splits)

lemma Builder_Run_error_only:
  "Builder_Run (Inr sess) runner = Returned (a, Some e) \<Longrightarrow>
   runner (initial_bag sess) ''error'' = Some (ErrorVal e) \<and> a = None"
  by (auto simp add: Builder_Run_def collect_artifact_def split: option.splits bagval.splits)

lemma Builder_Run_session_error: "Builder_Run (Inl e) runner = Returned (None, Some e)"
  by (simp add: Builder_Run_def)


text \<open>
  Claim C1, as amended. For a session whose region is set, once the runner is back:
  if the state bag holds an error value under \<open>error\<close>, \<open>Builder.Run\<close> returns that
  value as its error with a nil artifact; if the state bag has no \<open>error\<close> key and
  holds volumes under \<open>ebsvolumes\<close> and snapshots under \<open>ebssnapshots\<close>, it returns
  the artifact made of them with a nil error; if it has no \<open>error\<close> key and one of
  the two other keys is absent, the type assertion panics and nothing is returned.
  The runner returns nothing: whenever \<open>Builder.Run\<close> returns an error after the
  session was made, that error is the value stored under \<open>error\<close>, and the artifact
  is nil. A failing step signals its error through the state bag:
  when rendering the mount path or resolving it fails, \<open>StepManualMountCommand.Run\<close>
  stores that error (after the prefix of line 48 or 56) under \<open>error\<close> and returns
  \<open>ActionHalt\<close>; it returns \<open>ActionHalt\<close> only with such an error stored, and leaves
  the key alone when it returns \<open>ActionContinue\<close>.
\<close>

theorem Builder_Run_error_propagation:
  "(Region sess = Some rg \<longrightarrow>
     (runner (initial_bag sess) ''error'' = Some (ErrorVal e) \<longrightarrow>
        Builder_Run (Inr sess) runner = Returned (None, Some e)) \<and>
     (runner (initial_bag sess) ''error'' = None \<and>
      runner (initial_bag sess) ''ebsvolumes'' = Some (EbsVolumesVal vols) \<and>
      runner (initial_bag sess) ''ebssnapshots'' = Some (EbsSnapshotsVal snaps) \<longrightarrow>
        Builder_Run (Inr sess) runner =
          Returned (Some \<lparr>Volumes = vols, Snapshots = snaps,
                          BuilderIdValue = BuilderId_ebsvolume, Conn = sess,
                          StateData = [(''generated_data'', runner (initial_bag sess) ''generated_data'')]\<rparr>,
                    None)) \<and>
     (runner (initial_bag sess) ''error'' = None \<and>
      (runner (initial_bag sess) ''ebsvolumes'' = None \<or>
       runner (initial_bag sess) ''ebssnapshots'' = None) \<longrightarrow>
        Builder_Run (Inr sess) runner = Panic)) \<and>
   (\<forall>a x. Builder_Run (Inr sess) runner = Returned (a, Some x) \<longrightarrow>
      runner (initial_bag sess) ''error'' = Some (ErrorVal x) \<and> a = None) \<and>
   (st ''config'' = Some (ConfigVal config) \<and> st ''device'' = Some (StringVal device0) \<and>
    st ''ui'' = Some UiVal \<and> Command s \<noteq> [] \<longrightarrow>
      (Render lib config (MountPath config)
         (Base lib (if NVMEDevicePath config \<noteq> [] then NVMEDevicePath config else device0)) = Inl err \<longrightarrow>
         (\<exists>r'. Run s lib st = Returned r' \<and> action r' = ActionHalt \<and>
               bag r' = st(''error'' \<mapsto> ErrorVal (''Error preparing mount directory: '' @ err)))) \<and>
      (Render lib config (MountPath config)
         (Base lib (if NVMEDevicePath config \<noteq> [] then NVMEDevicePath config else device0)) = Inr p0 \<and>
       Abs lib p0 = Inl err \<longrightarrow>
         (\<exists>r'. Run s lib st = Returned r' \<and> action r' = ActionHalt \<and>
               bag r' = st(''error'' \<mapsto> ErrorVal (''Error preparing mount directory: '' @ err))))) \<and>
   (Run s lib st = Returned r \<and> action r = ActionHalt \<longrightarrow>
      (\<exists>err'. bag r ''error'' = Some (ErrorVal (''Error preparing mount directory: '' @ err')))) \<and>
   (Run s lib st = Returned r \<and> action r = ActionContinue \<longrightarrow> bag r ''error'' = st ''error'')"
proof -
  have render: "\<exists>r'. Run s lib st = Returned r' \<and> action r' = ActionHalt \<and>
      bag r' = st(''error'' \<mapsto> ErrorVal (''Error preparing mount directory: '' @ err))"
    if "st ''config'' = Some (ConfigVal config)" "st ''device'' = Some (StringVal device0)"
      "st ''ui'' = Some UiVal" "Command s \<noteq> []"
      "Render lib config (MountPath config)
         (Base lib (if NVMEDevicePath config \<noteq> [] then NVMEDevicePath config else device0)) = Inl err"
    using Run_render_failure [OF that] by blast
  have absf: "\<exists>r'. Run s lib st = Returned r' \<and> action r' = ActionHalt \<and>
      bag r' = st(''error'' \<mapsto> ErrorVal (''Error preparing mount directory: '' @ err))"
    if "st ''config'' = Some (ConfigVal config)" "st ''device'' = Some (StringVal device0)"
      "st ''ui'' = Some UiVal" "Command s \<noteq> []"
      "Render lib config (MountPath config)
         (Base lib (if NVMEDevicePath config \<noteq> [] then NVMEDevicePath config else device0)) = Inr p0"
      "Abs lib p0 = Inl err"
    using Run_abs_failure [OF that] by blast
  have only: "\<forall>a x. Builder_Run (Inr sess) runner = Returned (a, Some x) \<longrightarrow>
      runner (initial_bag sess) ''error'' = Some (ErrorVal x) \<and> a = None"
    using Builder_Run_error_only by blast
  show ?thesis
    using Builder_Run_error [of sess rg runner e] Builder_Run_artifact [of sess rg runner vols snaps]
      Builder_Run_no_volumes [of sess rg runner]
      Run_halt_error [of s lib st r] Run_continue_no_error [of s lib st r] render absf only
    by blast
qed

theorem Builder_Run_error_propagation_witness:
  "Builder_Run (Inr sample_session) failing_runner =
     Returned (None, Some ''Error launching source instance'') \<and>
   Builder_Run (Inr sample_session) succeeding_runner =
     Returned (Some \<lparr>Volumes = [(''us-east-1'', [''vol-1''])], Snapshots = [],
                     BuilderIdValue = BuilderId_ebsvolume, Conn = sample_session,
                     StateData = [(''generated_data'', None)]\<rparr>, None) \<and>
   (\<exists>r. Run (sample_step ''mount'') failing_lib sample_bag = Returned r \<and> action r = ActionHalt \<and>
        bag r ''error'' = Some (ErrorVal ''Error preparing mount directory: template: unexpected }''))"
proof -
  have rg: "Region sample_session = Some ''us-east-1''"
    by (simp add: sample_session_def)
  have f: "failing_runner (initial_bag sample_session) ''error'' =
      Some (ErrorVal ''Error launching source instance'')"
    by (simp add: failing_runner_def)
  have g: "succeeding_runner (initial_bag sample_session) ''error'' = None \<and>
      succeeding_runner (initial_bag sample_session) ''ebsvolumes'' =
        Some (EbsVolumesVal [(''us-east-1'', [''vol-1''])]) \<and>
      succeeding_runner (initial_bag sample_session) ''ebssnapshots'' = Some (EbsSnapshotsVal []) \<and>
      succeeding_runner (initial_bag sample_session) ''generated_data'' = None"
    by (simp add: succeeding_runner_def initial_bag_def)
  have c: "sample_bag ''config'' = Some (ConfigVal \<lparr>NVMEDevicePath = [], MountPath = ''mnt''\<rparr>) \<and>
      sample_bag ''device'' = Some (StringVal ''/dev/xvdf'') \<and> sample_bag ''ui'' = Some UiVal \<and>
      Command (sample_step ''mount'') \<noteq> []"
    by (simp add: sample_bag_def sample_step_def)
  have fl: "Render failing_lib \<lparr>NVMEDevicePath = [], MountPath = ''mnt''\<rparr>
      (MountPath \<lparr>NVMEDevicePath = [], MountPath = ''mnt''\<rparr>)
      (Base failing_lib (if NVMEDevicePath \<lparr>NVMEDevicePath = [], MountPath = ''mnt''\<rparr> \<noteq> []
         then NVMEDevicePath \<lparr>NVMEDevicePath = [], MountPath = ''mnt''\<rparr> else ''/dev/xvdf'')) =
      Inl ''template: unexpected }''"
    by (simp add: failing_lib_def)
  from Builder_Run_error_propagation
      [where sess = sample_session and rg = "''us-east-1''" and runner = failing_runner
         and e = "''Error launching source instance''"
         and s = "sample_step ''mount''" and lib = failing_lib and st = sample_bag
         and config = "\<lparr>NVMEDevicePath = [], MountPath = ''mnt''\<rparr>" and ?device0.0 = "''/dev/xvdf''"
         and err = "''template: unexpected }''"]
    rg f c fl
  have one: "Builder_Run (Inr sample_session) failing_runner =
      Returned (None, Some ''Error launching source instance'')"
    and three: "\<exists>r. Run (sample_step ''mount'') failing_lib sample_bag = Returned r \<and>
      action r = ActionHalt \<and>
      bag r = sample_bag(''error'' \<mapsto> ErrorVal (''Error preparing mount directory: '' @ ''template: unexpected }''))"
    by blast+
  from Builder_Run_error_propagation
      [where sess = sample_session and rg = "''us-east-1''" and runner = succeeding_runner
         and vols = "[(''us-east-1'', [''vol-1''])]" and snaps = "[]"] rg g
  have two: "Builder_Run (Inr sample_session) succeeding_runner =
     Returned (Some \<lparr>Volumes = [(''us-east-1'', [''vol-1''])], Snapshots = [],
                     BuilderIdValue = BuilderId_ebsvolume, Conn = sample_session,
                     StateData = [(''generated_data'', None)]\<rparr>, None)"
    by simp
  from three have "\<exists>r. Run (sample_step ''mount'') failing_lib sample_bag = Returned r \<and>
      action r = ActionHalt \<and>
      bag r ''error'' = Some (ErrorVal ''Error preparing mount directory: template: unexpected }'')"
    by auto
  with one two show ?thesis by blast
qed

text \<open>
  Where claim C1 fails as stated. A runner that comes back without any step having
  stored \<open>error\<close>, \<open>ebsvolumes\<close> or \<open>ebssnapshots\<close> (here it leaves the state bag as it
  got it): \<open>Builder.Run\<close> returns no artifact, the type assertion on the absent
  \<open>ebsvolumes\<close> panics.
\<close>

theorem Builder_Run_missing_volumes_counterexample:
  "(\<lambda>st. st) (initial_bag sample_session) ''error'' = None \<and>
   Builder_Run (Inr sample_session) (\<lambda>st. st) = Panic"
  by (simp add: Builder_Run_def collect_artifact_def initial_bag_def sample_session_def)


section \<open>Properties of ValidateKmsKey\<close>

lemma concI: "u \<in> A \<Longrightarrow> v \<in> B \<Longrightarrow> u @ v \<in> conc A B"
  by (auto simp add: conc_def)

lemma nullable_lang: "nullable r = ([] \<in> lang r)"
  by (induction r) (auto simp add: conc_def intro: star.star_nil)

lemma star_cons:
  assumes "x \<in> star A" and "x = c # w"
  shows "\<exists>u v. w = u @ v \<and> c # u \<in> A \<and> v \<in> star A"
  using assms
proof (induction x rule: star.induct)
  case star_nil
  then show ?case by simp
next
  case (star_step u v)
  show ?case
  proof (cases u)
    case Nil
    with star_step show ?thesis by simp
  next
    case (Cons a u')
    with star_step have "a = c" and "w = u' @ v" by simp_all
    with star_step Cons show ?thesis by blast
  qed
qed

lemma lang_deriv: "lang (deriv c r) = {w. c # w \<in> lang r}"
proof (induction r)
  case (Seq r s)
  have "{w. c # w \<in> conc (lang r) (lang s)} =
        conc {w. c # w \<in> lang r} (lang s) \<union> (if [] \<in> lang r then {w. c # w \<in> lang s} else {})"
    by (auto simp add: conc_def Cons_eq_append_conv)
  with Seq show ?case by (auto simp add: nullable_lang)
next
  case (Star r)
  have "{w. c # w \<in> star (lang r)} = conc {w. c # w \<in> lang r} (star (lang r))"
  proof (rule set_eqI, rule iffI)
    fix w assume "w \<in> {w. c # w \<in> star (lang r)}"
    then have "c # w \<in> star (lang r)" by simp
    from star_cons [OF this refl] show "w \<in> conc {w. c # w \<in> lang r} (star (lang r))"
      by (auto simp add: conc_def)
  next
    fix w assume "w \<in> conc {w. c # w \<in> lang r} (star (lang r))"
    then obtain u v where "w = u @ v" "c # u \<in> lang r" "v \<in> star (lang r)"
      by (auto simp add: conc_def)
    then have "(c # u) @ v \<in> star (lang r)" by (intro star.star_step)
    with \<open>w = u @ v\<close> show "w \<in> {w. c # w \<in> star (lang r)}" by simp
  qed
  with Star show ?case by simp
qed auto

lemma MatchString_lang: "MatchString r s = (s \<in> lang r)"
  unfolding MatchString_def
  by (induction s arbitrary: r) (simp_all add: nullable_lang lang_deriv)

lemma star_cls: "set w \<subseteq> set cs \<Longrightarrow> w \<in> star (lang (Cls cs))"
proof (induction w)
  case Nil
  show ?case by (rule star.star_nil)
next
  case (Cons a w)
  then have "[a] \<in> lang (Cls cs)" and "w \<in> star (lang (Cls cs))" by simp_all
  then have "[a] @ w \<in> star (lang (Cls cs))" by (rule star.star_step)
  then show ?case by simp
qed

lemma plus_cls: "w \<noteq> [] \<Longrightarrow> set w \<subseteq> set cs \<Longrightarrow> w \<in> lang (Plus (Cls cs))"
proof (cases w)
  case Nil
  assume "w \<noteq> []" with Nil show ?thesis by simp
next
  case (Cons a w')
  assume "set w \<subseteq> set cs"
  with Cons have "a \<in> set cs" and sub: "set w' \<subseteq> set cs" by simp_all
  then have "[a] \<in> lang (Cls cs)" by simp
  moreover have "w' \<in> star (lang (Cls cs))" using sub by (rule star_cls)
  ultimately have "[a] \<in> lang (Cls cs)" and "w' \<in> star (lang (Cls cs))" by blast+
  then have "[a] @ w' \<in> conc (lang (Cls cs)) (star (lang (Cls cs)))" by (rule concI)
  with Cons show ?thesis by (simp add: Plus_def)
qed

lemma key_id_lang:
  assumes "2 \<le> length k" and "set k \<subseteq> set ''abcdef0123456789-''" and "hd k \<noteq> CHR ''-''"
  shows "k \<in> lang kmsKeyIdPattern"
proof -
  from assms(1) obtain c rest where k: "k = c # rest" and rest: "rest \<noteq> []"
    by (cases k) (auto simp add: Suc_le_eq)
  from assms(2,3) k have "set [c] \<subseteq> set ''abcdef0123456789''" by auto
  then have a: "[c] \<in> lang (Plus hex_cls)"
    unfolding hex_cls_def by (intro plus_cls) simp_all
  from assms(2) k have "set rest \<subseteq> set ''abcdef0123456789-''" by simp
  with rest have b: "rest \<in> lang (Plus hexdash_cls)"
    unfolding hexdash_cls_def by (intro plus_cls)
  from concI [OF a b] show ?thesis by (simp add: kmsKeyIdPattern_def k)
qed

lemma arn_prefix: "''arn:aws:kms:us-east-1:123456789012:key/'' \<in> lang (Seq kmsArnStartPattern (Lit ''key/''))"
proof -
  have "MatchString (Seq kmsArnStartPattern (Lit ''key/'')) ''arn:aws:kms:us-east-1:123456789012:key/''"
    by code_simp
  then show ?thesis by (simp only: MatchString_lang)
qed


lemma arn_key_lang:
  assumes "k \<in> lang kmsKeyIdPattern"
  shows "''arn:aws:kms:us-east-1:123456789012:key/'' @ k \<in>
           lang (Seq (Seq kmsArnStartPattern (Lit ''key/'')) kmsKeyIdPattern)"
  using concI [OF arn_prefix assms] by (simp only: lang.simps)

lemma ValidateKmsKey_lang:
  "ValidateKmsKey k =
    (k \<in> lang kmsKeyIdPattern \<or> k \<in> lang mrkKeyIdPattern \<or> k \<in> lang aliasPattern \<or>
     k \<in> lang (Seq (Seq kmsArnStartPattern (Lit ''key/'')) kmsKeyIdPattern) \<or>
     k \<in> lang (Seq (Seq kmsArnStartPattern (Lit ''key/'')) mrkKeyIdPattern) \<or>
     k \<in> lang (Seq kmsArnStartPattern aliasPattern))"
  by (simp only: ValidateKmsKey_def MatchString_lang) auto

lemma ValidateKmsKey_key_id:
  assumes "length k = 36" and "set k \<subseteq> set ''abcdef0123456789-''" and "hd k \<noteq> CHR ''-''"
  shows "ValidateKmsKey k"
    and "ValidateKmsKey (''arn:aws:kms:us-east-1:123456789012:key/'' @ k)"
proof -
  from assms have k: "k \<in> lang kmsKeyIdPattern"
    by (intro key_id_lang) simp_all
  then show "ValidateKmsKey k"
    by (simp only: ValidateKmsKey_lang) simp
  from arn_key_lang [OF k]
  show "ValidateKmsKey (''arn:aws:kms:us-east-1:123456789012:key/'' @ k)"
    by (simp only: ValidateKmsKey_lang) simp
qed

lemma ValidateKmsKey_alias: "ValidateKmsKey ''alias/my-key''"
  by code_simp

lemma ValidateKmsKey_not_a_key: "\<not> ValidateKmsKey ''not-a-key''"
  by code_simp

text \<open>
  Claim C7. \<open>ValidateKmsKey\<close> accepts the alias \<open>alias/my-key\<close>; it accepts every
  bare key id of 36 characters, each a lower-case hexadecimal digit or a dash, the
  first one not a dash, and the ARN \<open>arn:aws:kms:us-east-1:123456789012:key/\<close>
  followed by such an id; it rejects \<open>not-a-key\<close>.
\<close>

theorem ValidateKmsKey_accepts_and_rejects:
  "ValidateKmsKey ''alias/my-key'' \<and>
   (length k = 36 \<and> set k \<subseteq> set ''abcdef0123456789-'' \<and> hd k \<noteq> CHR ''-'' \<longrightarrow>
      ValidateKmsKey k \<and> ValidateKmsKey (''arn:aws:kms:us-east-1:123456789012:key/'' @ k)) \<and>
   \<not> ValidateKmsKey ''not-a-key''"
  using ValidateKmsKey_alias ValidateKmsKey_not_a_key ValidateKmsKey_key_id [of k]
  by blast

theorem ValidateKmsKey_accepts_and_rejects_witness:
  "ValidateKmsKey sample_key_id \<and>
   ValidateKmsKey (''arn:aws:kms:us-east-1:123456789012:key/'' @ sample_key_id) \<and>
   ValidateKmsKey ''alias/my-key'' \<and> \<not> ValidateKmsKey ''not-a-key''"
proof -
  have "length sample_key_id = 36 \<and> set sample_key_id \<subseteq> set ''abcdef0123456789-'' \<and>
      hd sample_key_id \<noteq> CHR ''-''"
    by (simp add: sample_key_id_def)
  with ValidateKmsKey_accepts_and_rejects [of sample_key_id] show ?thesis by blast
qed

section \<open>Properties of the import post-processor\<close>

lemma build_options_keys:
  "map fst (build_options c) =
     (if Description c \<noteq> [] then [''description''] else []) @
     (if Groups c \<noteq> [] then [''groups''] else []) @
     (if Users c \<noteq> [] then [''users''] else []) @
     (if OrgArns c \<noteq> [] then [''ami org arns''] else []) @
     (if OuArns c \<noteq> [] then [''ami ou arns''] else []) @
     (if AMIIMDSSupport_import c \<noteq> [] then [''ami imds support''] else [])"
  by (simp add: build_options_def)

lemma build_options_distinct: "distinct (map fst (build_options c))"
  by (simp add: build_options_keys)

lemma build_options_only_users:
  assumes "Description c = []" "Groups c = []" "Users c = us" "us \<noteq> []" "OrgArns c = []" "OuArns c = []"
    "AMIIMDSSupport_import c = []"
  shows "build_options c =
     [(''users'', no_modification\<lparr>mia_UserIds := us, mia_LaunchPermissionAdd := Some (map LP_UserId us)\<rparr>)]"
  using assms by (simp add: build_options_def)

lemma modify_attributes_single:
  "snd (modify_attributes w ami [(name, inp)]) =
     [Call_ModifyImageAttribute name (inp\<lparr>mia_ImageId := Some ami\<rparr>)]"
  by (simp add: Let_def io_call_def io_ok_def io_fail_def split: option.splits)

text \<open>
  Claim C5. The keys of the map of modification requests are, in the order the
  source adds them, \<open>description\<close>, \<open>groups\<close>, \<open>users\<close>, \<open>ami org arns\<close>,
  \<open>ami ou arns\<close> and \<open>ami imds support\<close>, each present exactly when its field of the
  configuration is not empty, and no key is there twice. With only \<open>ami_users\<close> set
  (to a list \<open>us\<close> that is not empty, such as the one account \<open>111111111111\<close>), the
  map has the one entry \<open>users\<close>, which adds a launch permission for each user, and
  the phase makes the one call of \<open>ModifyImageAttribute\<close> for it.
\<close>

theorem build_options_nonempty_fields:
  "map fst (build_options c) =
     (if Description c \<noteq> [] then [''description''] else []) @
     (if Groups c \<noteq> [] then [''groups''] else []) @
     (if Users c \<noteq> [] then [''users''] else []) @
     (if OrgArns c \<noteq> [] then [''ami org arns''] else []) @
     (if OuArns c \<noteq> [] then [''ami ou arns''] else []) @
     (if AMIIMDSSupport_import c \<noteq> [] then [''ami imds support''] else []) \<and>
   distinct (map fst (build_options c)) \<and>
   (Description c = [] \<and> Groups c = [] \<and> Users c = us \<and> us \<noteq> [] \<and> OrgArns c = [] \<and>
    OuArns c = [] \<and> AMIIMDSSupport_import c = [] \<longrightarrow>
      build_options c =
        [(''users'', no_modification\<lparr>mia_UserIds := us,
                       mia_LaunchPermissionAdd := Some (map LP_UserId us)\<rparr>)] \<and>
      snd (modify_attributes w ami (build_options c)) =
        [Call_ModifyImageAttribute ''users''
           (no_modification\<lparr>mia_UserIds := us, mia_LaunchPermissionAdd := Some (map LP_UserId us),
              mia_ImageId := Some ami\<rparr>)])"
proof -
  have "build_options c =
        [(''users'', no_modification\<lparr>mia_UserIds := us,
                       mia_LaunchPermissionAdd := Some (map LP_UserId us)\<rparr>)] \<and>
      snd (modify_attributes w ami (build_options c)) =
        [Call_ModifyImageAttribute ''users''
           (no_modification\<lparr>mia_UserIds := us, mia_LaunchPermissionAdd := Some (map LP_UserId us),
              mia_ImageId := Some ami\<rparr>)]"
    if "Description c = []" "Groups c = []" "Users c = us" "us \<noteq> []" "OrgArns c = []"
      "OuArns c = []" "AMIIMDSSupport_import c = []"
    using build_options_only_users [OF that] by (simp only: modify_attributes_single)
  then show ?thesis
    using build_options_keys [of c] build_options_distinct [of c] by blast
qed

theorem build_options_nonempty_fields_witness:
  "build_options sample_import_config =
     [(''users'', no_modification\<lparr>mia_UserIds := [''111111111111''],
                    mia_LaunchPermissionAdd := Some [LP_UserId ''111111111111'']\<rparr>)] \<and>
   map fst (build_options sample_import_config) = [''users'']"
proof -
  have "Description sample_import_config = [] \<and> Groups sample_import_config = [] \<and>
      Users sample_import_config = [''111111111111''] \<and> [''111111111111''] \<noteq> [] \<and>
      OrgArns sample_import_config = [] \<and> OuArns sample_import_config = [] \<and>
      AMIIMDSSupport_import sample_import_config = []"
    by (simp add: sample_import_config_def)
  with build_options_nonempty_fields [of sample_import_config "[''111111111111'']"]
  show ?thesis by simp
qed

section \<open>Properties of AMIConfig\<close>

lemma remdups_snoc: "remdups (xs @ [r]) = filter (\<lambda>x. x \<noteq> r) (remdups xs) @ [r]"
  by (induction xs) auto

lemma first_occ_Cons: "rev (remdups (rev (r # rs))) = r # filter (\<lambda>x. x \<noteq> r) (rev (remdups (rev rs)))"
  by (simp add: remdups_snoc rev_filter)


lemma regions_loop_fst:
  "fst (regions_loop kms raw seen rs) =
     (if kms = [] then []
      else map AmiRegionNotInKmsRegions
             (filter (\<lambda>r. map_of kms r = None \<and> r \<notin> set seen) (rev (remdups (rev rs)))))"
proof (induction rs arbitrary: seen)
  case Nil
  show ?case by simp
next
  case (Cons r rs)
  show ?case
  proof (cases "r \<in> set seen")
    case True
    then have "filter (\<lambda>x. map_of kms x = None \<and> x \<notin> set seen) (filter (\<lambda>x. x \<noteq> r) (rev (remdups (rev rs)))) =
        filter (\<lambda>x. map_of kms x = None \<and> x \<notin> set seen) (rev (remdups (rev rs)))"
      by (auto intro: filter_cong)
    with True Cons [of seen] show ?thesis
      by (simp only: first_occ_Cons) simp
  next
    case False
    have "filter (\<lambda>x. map_of kms x = None \<and> x \<notin> set seen) (filter (\<lambda>x. x \<noteq> r) (rev (remdups (rev rs)))) =
        filter (\<lambda>x. map_of kms x = None \<and> x \<notin> set (r # seen)) (rev (remdups (rev rs)))"
      by (auto intro: filter_cong)
    with False Cons [of "r # seen"] show ?thesis
      by (simp only: first_occ_Cons) (auto simp add: Let_def split_def)
  qed
qed


lemma prepareRegions_errors:
  "fst (prepareRegions c ac) =
     (if AMIRegionKMSKeyIDs c = [] then []
      else map AmiRegionNotInKmsRegions
             (filter (\<lambda>r. map_of (AMIRegionKMSKeyIDs c) r = None) (rev (remdups (rev (AMIRegions c))))))"
  by (cases "AMIRegions c = []") (simp_all add: prepareRegions_def split_def regions_loop_fst)

lemma prepareRegions_frame:
  "snd (prepareRegions c ac) = c\<lparr>AMIRegions := AMIRegions (snd (prepareRegions c ac))\<rparr>"
  by (simp add: prepareRegions_def split_def Let_def)

lemma check_kms_regions_cong:
  "AMIRegionKMSKeyIDs c = AMIRegionKMSKeyIDs c' \<Longrightarrow> AMIRegions c = AMIRegions c' \<Longrightarrow>
   check_kms_regions c = check_kms_regions c'"
  unfolding check_kms_regions_def by (simp only:)

lemma check_share_cong:
  "AMIKmsKeyId c = AMIKmsKeyId c' \<Longrightarrow> AMIRegionKMSKeyIDs c = AMIRegionKMSKeyIDs c' \<Longrightarrow>
   AMIEncryptBootVolume c = AMIEncryptBootVolume c' \<Longrightarrow>
   check_share c b e1 e2 = check_share c' b e1 e2"
  unfolding check_share_def by (simp only:)

lemma check_kmsKeys_cong:
  "AMIKmsKeyId c = AMIKmsKeyId c' \<Longrightarrow> AMIRegionKMSKeyIDs c = AMIRegionKMSKeyIDs c' \<Longrightarrow>
   AMIEncryptBootVolume c = AMIEncryptBootVolume c' \<Longrightarrow>
   check_kmsKeys c = check_kmsKeys c'"
  unfolding check_kmsKeys_def collect_kmsKeys_def by (simp only:)

lemma check_name_cong: "AMIName c = AMIName c' \<Longrightarrow> check_name c = check_name c'"
  unfolding check_name_def by (simp only:)

lemma check_imds_deprecation_cong:
  "AMIIMDSSupport c = AMIIMDSSupport c' \<Longrightarrow> DeprecationTime c = DeprecationTime c' \<Longrightarrow>
   check_imds_deprecation lib c = check_imds_deprecation lib c'"
  unfolding check_imds_deprecation_def by (simp only:)

lemma prepareRegions_errors_cong:
  "AMIRegionKMSKeyIDs c = AMIRegionKMSKeyIDs c' \<Longrightarrow> AMIRegions c = AMIRegions c' \<Longrightarrow>
   fst (prepareRegions c ac) = fst (prepareRegions c' ac)"
  by (simp only: prepareRegions_errors)

lemma Prepare_errors:
  "fst (Prepare lib c ac) =
     map ExternalError (fst (CopyOn lib (SnapshotTag c) (SnapshotTags c))) @
     map ExternalError (fst (CopyOn lib (AMITag c) (AMITags c))) @
     (if AMIName c = [] then [AmiNameMissing] else []) @
     check_kms_regions c @
     fst (prepareRegions c ac) @
     check_share c (AMIUsers c \<noteq> [] \<or> AMIOrgArns c \<noteq> [] \<or> AMIOuArns c \<noteq> [])
       ShareDefaultKeyAmi ShareDefaultKeyAmiRegions @
     check_kmsKeys c @
     check_share c (SnapshotUsers c \<noteq> []) ShareDefaultKeySnapshot ShareDefaultKeySnapshotRegions @
     check_name c @
     check_imds_deprecation lib c"
proof -
  obtain e1 t1 where a: "CopyOn lib (SnapshotTag c) (SnapshotTags c) = (e1, t1)"
    by (cases "CopyOn lib (SnapshotTag c) (SnapshotTags c)")
  obtain e2 t2 where b: "CopyOn lib (AMITag c) (AMITags c) = (e2, t2)"
    by (cases "CopyOn lib (AMITag c) (AMITags c)")
  define c2 where "c2 = c\<lparr>SnapshotTags := t1, AMITags := t2\<rparr>"
  obtain e3 c3 where r: "prepareRegions c2 ac = (e3, c3)"
    by (cases "prepareRegions c2 ac")
  have c3: "c3 = c2\<lparr>AMIRegions := AMIRegions c3\<rparr>"
    using prepareRegions_frame [of c2 ac] r by simp
  have f2: "AMIName c2 = AMIName c" "AMIUsers c2 = AMIUsers c" "AMIOrgArns c2 = AMIOrgArns c"
    "AMIOuArns c2 = AMIOuArns c" "SnapshotUsers c2 = SnapshotUsers c"
    "AMIKmsKeyId c2 = AMIKmsKeyId c" "AMIRegionKMSKeyIDs c2 = AMIRegionKMSKeyIDs c"
    "AMIEncryptBootVolume c2 = AMIEncryptBootVolume c" "AMIIMDSSupport c2 = AMIIMDSSupport c"
    "DeprecationTime c2 = DeprecationTime c" "AMIRegions c2 = AMIRegions c"
    by (simp_all add: c2_def)
  have f3: "AMIName c3 = AMIName c" "AMIUsers c3 = AMIUsers c" "AMIOrgArns c3 = AMIOrgArns c"
    "AMIOuArns c3 = AMIOuArns c" "SnapshotUsers c3 = SnapshotUsers c"
    "AMIKmsKeyId c3 = AMIKmsKeyId c" "AMIRegionKMSKeyIDs c3 = AMIRegionKMSKeyIDs c"
    "AMIEncryptBootVolume c3 = AMIEncryptBootVolume c" "AMIIMDSSupport c3 = AMIIMDSSupport c"
    "DeprecationTime c3 = DeprecationTime c"
    by (subst c3, simp add: f2)+
  have e3: "e3 = fst (prepareRegions c ac)"
    using r prepareRegions_errors_cong [of c2 c ac] f2 by simp
  have k: "check_kms_regions c2 = check_kms_regions c"
    by (rule check_kms_regions_cong) (simp_all add: f2)
  have chk: "check_share c3 b' x y = check_share c b' x y" for b' x y
    by (rule check_share_cong) (simp_all add: f3)
  have chk2: "check_kmsKeys c3 = check_kmsKeys c"
    by (rule check_kmsKeys_cong) (simp_all add: f3)
  have chk3: "check_name c3 = check_name c"
    by (rule check_name_cong) (simp_all add: f3)
  have chk4: "check_imds_deprecation lib c3 = check_imds_deprecation lib c"
    by (rule check_imds_deprecation_cong) (simp_all add: f3)
  have "fst (Prepare lib c ac) =
      (map ExternalError e1 @ map ExternalError e2) @
      (if AMIName c2 = [] then [AmiNameMissing] else []) @
      check_kms_regions c2 @ e3 @
      check_share c3 (length (AMIUsers c3) > 0 \<or> length (AMIOrgArns c3) > 0 \<or> length (AMIOuArns c3) > 0)
        ShareDefaultKeyAmi ShareDefaultKeyAmiRegions @
      check_kmsKeys c3 @
      check_share c3 (length (SnapshotUsers c3) > 0) ShareDefaultKeySnapshot ShareDefaultKeySnapshotRegions @
      check_name c3 @ check_imds_deprecation lib c3"
  proof -
    have b': "CopyOn lib (AMITag (c\<lparr>SnapshotTags := t1\<rparr>)) (AMITags (c\<lparr>SnapshotTags := t1\<rparr>)) = (e2, t2)"
      using b by simp
    have r': "prepareRegions (c\<lparr>SnapshotTags := t1, AMITags := t2\<rparr>) ac = (e3, c3)"
      using r by (simp add: c2_def)
    show ?thesis
      by (simp add: Prepare_def Let_def a b b' r' c2_def)
  qed
  then show ?thesis
    by (simp only: a b fst_conv f2 f3 k chk chk2 chk3 chk4 e3 [symmetric] length_greater_0_conv append_assoc)
qed

lemma dash_allowed: "ami_name_allowed (CHR ''-'')"
  by (simp add: ami_name_allowed_def isalphanumeric_def)

lemma hash_not_allowed: "\<not> ami_name_allowed (CHR ''#'')"
  by (simp add: ami_name_allowed_def isalphanumeric_def)

lemma templateCleanAMIName_fixed:
  "(templateCleanAMIName s = s) = (\<forall>ch\<in>set s. ami_name_allowed ch)"
proof (induction s)
  case Nil
  show ?case by (simp add: templateCleanAMIName_def)
next
  case (Cons a s)
  then show ?case
    using dash_allowed by (auto simp add: templateCleanAMIName_def)
qed

lemma concat_empty_keys:
  "set (concat (map (\<lambda>(u, k). if length k = 0 then [e] else []) kms)) =
     {x. x = e \<and> (\<exists>r. (r, []) \<in> set kms)}"
  by (induction kms) auto

lemma concat_kms_regions:
  "set (concat (map (\<lambda>(r, u). if \<not> stringInSlice rs r then [KmsRegionNotInAmiRegions r] else []) kms)) =
     {x. \<exists>r k. x = KmsRegionNotInAmiRegions r \<and> (r, k) \<in> set kms \<and> r \<notin> set rs}"
  by (induction kms) (auto simp add: stringInSlice_def)

lemma concat_keys:
  "set (concat (map (\<lambda>(u, k). if length k > 0 then [k] else []) kms)) =
     {k. k \<noteq> [] \<and> (\<exists>r. (r, k) \<in> set kms)}"
  by (induction kms) auto

lemma concat_invalid:
  "set (concat (map (\<lambda>k. if \<not> ValidateKmsKey k then [InvalidKmsKey k] else []) ks)) =
     {x. \<exists>k. x = InvalidKmsKey k \<and> k \<in> set ks \<and> \<not> ValidateKmsKey k}"
  by (induction ks) auto





lemma prepareRegions_no_kms: "AMIRegionKMSKeyIDs c = [] \<Longrightarrow> fst (prepareRegions c ac) = []"
  by (simp add: prepareRegions_errors)

lemma prepareRegions_errors_set:
  "set (fst (prepareRegions c ac)) =
     AmiRegionNotInKmsRegions ` {r \<in> set (AMIRegions c). AMIRegionKMSKeyIDs c \<noteq> [] \<and>
        (\<forall>k. (r, k) \<notin> set (AMIRegionKMSKeyIDs c))}"
proof (cases "AMIRegionKMSKeyIDs c = []")
  case True
  then show ?thesis by (simp add: prepareRegions_no_kms)
next
  case False
  have "map_of (AMIRegionKMSKeyIDs c) r = None \<longleftrightarrow> (\<forall>k. (r, k) \<notin> set (AMIRegionKMSKeyIDs c))" for r
    by (simp add: map_of_eq_None_iff image_iff) force
  with False show ?thesis
    by (simp only: prepareRegions_errors if_False set_map set_filter set_rev set_remdups) simp
qed






lemma check_kms_regions_kind:
  "e \<in> set (check_kms_regions c) \<Longrightarrow> \<exists>r. e = KmsRegionNotInAmiRegions r"
  unfolding check_kms_regions_def
  by (cases "length (AMIRegionKMSKeyIDs c) > 0") (simp_all only: if_True if_False concat_kms_regions, blast, simp)

lemma prepareRegions_errors_kind:
  "e \<in> set (fst (prepareRegions c ac)) \<Longrightarrow> \<exists>r. e = AmiRegionNotInKmsRegions r"
  by (simp only: prepareRegions_errors_set) blast

lemma check_share_kind: "e \<in> set (check_share c b e1 e2) \<Longrightarrow> e = e1 \<or> e = e2"
proof -
  assume a: "e \<in> set (check_share c b e1 e2)"
  have k: "x \<in> set (concat (map (\<lambda>(u, kmsKey). if length kmsKey = 0 then [e2] else []) kms)) \<Longrightarrow> x = e2"
    for x and kms :: "(string \<times> string) list"
    by (simp only: concat_empty_keys) blast
  from a show ?thesis
    unfolding check_share_def
    by (auto split: if_splits dest: k)
qed

lemma check_kmsKeys_kind:
  "e \<in> set (check_kmsKeys c) \<Longrightarrow> e = KmsNeedsEncryptBoot \<or> (\<exists>k. e = InvalidKmsKey k)"
proof -
  assume a: "e \<in> set (check_kmsKeys c)"
  have k: "x \<in> set (concat (map (\<lambda>kmsKey. if \<not> ValidateKmsKey kmsKey then [InvalidKmsKey kmsKey] else []) ks)) \<Longrightarrow>
      \<exists>k. x = InvalidKmsKey k" for x ks
    by (simp only: concat_invalid) blast
  from a show ?thesis
    unfolding check_kmsKeys_def Let_def
    by (auto split: if_splits dest: k)
qed

lemma check_imds_deprecation_kind:
  "e \<in> set (check_imds_deprecation lib c) \<Longrightarrow>
   e = InvalidImdsSupport \<or> (\<exists>t. e = InvalidDeprecationTime t)"
  unfolding check_imds_deprecation_def by (auto split: if_splits)

lemma check_name_set:
  "set (check_name c) =
     {e. e = AmiNameLength \<and> (length (AMIName c) < 3 \<or> 128 < length (AMIName c))} \<union>
     {e. e = AmiNameCharacters \<and> AMIName c \<noteq> templateCleanAMIName (AMIName c)}"
  unfolding check_name_def by (auto split: if_splits)

lemma Prepare_name_errors:
  assumes "e = AmiNameLength \<or> e = AmiNameCharacters"
  shows "(e \<in> set (fst (Prepare lib c ac))) = (e \<in> set (check_name c))"
proof -
  have n1: "e \<notin> set (map ExternalError xs)" for xs using assms by auto
  have n2: "e \<notin> set (if AMIName c = [] then [AmiNameMissing] else [])" using assms by auto
  have n3: "e \<notin> set (check_kms_regions c)" using assms check_kms_regions_kind [of e c] by auto
  have n4: "e \<notin> set (fst (prepareRegions c ac))" using assms prepareRegions_errors_kind [of e c ac] by auto
  have n5: "e \<notin> set (check_share c b ShareDefaultKeyAmi ShareDefaultKeyAmiRegions)" for b
    using assms check_share_kind [of e c b ShareDefaultKeyAmi ShareDefaultKeyAmiRegions] by auto
  have n6: "e \<notin> set (check_kmsKeys c)" using assms check_kmsKeys_kind [of e c] by auto
  have n7: "e \<notin> set (check_share c b ShareDefaultKeySnapshot ShareDefaultKeySnapshotRegions)" for b
    using assms check_share_kind [of e c b ShareDefaultKeySnapshot ShareDefaultKeySnapshotRegions] by auto
  have n8: "e \<notin> set (check_imds_deprecation lib c)"
    using assms check_imds_deprecation_kind [of e lib c] by auto
  show ?thesis
    unfolding Prepare_errors set_append Un_iff
    using n1 n2 n3 n4 n5 n6 n7 n8 by blast
qed

lemma AmiNameLength_iff:
  "(AmiNameLength \<in> set (fst (Prepare lib c ac))) = (length (AMIName c) < 3 \<or> 128 < length (AMIName c))"
  using Prepare_name_errors [of AmiNameLength lib c ac] by (simp add: check_name_set)

lemma AmiNameCharacters_iff:
  "(AmiNameCharacters \<in> set (fst (Prepare lib c ac))) = (\<exists>ch\<in>set (AMIName c). \<not> ami_name_allowed ch)"
  using templateCleanAMIName_fixed [of "AMIName c"] Prepare_name_errors [of AmiNameCharacters lib c ac]
  by (simp add: check_name_set) metis

lemma AmiNameMissing_iff:
  "(AmiNameMissing \<in> set (fst (Prepare lib c ac))) = (AMIName c = [])"
proof -
  have n1: "AmiNameMissing \<notin> set (map ExternalError xs)" for xs by auto
  have n3: "AmiNameMissing \<notin> set (check_kms_regions c)" using check_kms_regions_kind [of AmiNameMissing c] by auto
  have n4: "AmiNameMissing \<notin> set (fst (prepareRegions c ac))" using prepareRegions_errors_kind [of AmiNameMissing c ac] by auto
  have n5: "AmiNameMissing \<notin> set (check_share c b ShareDefaultKeyAmi ShareDefaultKeyAmiRegions)" for b
    using check_share_kind [of AmiNameMissing c b ShareDefaultKeyAmi ShareDefaultKeyAmiRegions] by auto
  have n6: "AmiNameMissing \<notin> set (check_kmsKeys c)" using check_kmsKeys_kind [of AmiNameMissing c] by auto
  have n7: "AmiNameMissing \<notin> set (check_share c b ShareDefaultKeySnapshot ShareDefaultKeySnapshotRegions)" for b
    using check_share_kind [of AmiNameMissing c b ShareDefaultKeySnapshot ShareDefaultKeySnapshotRegions] by auto
  have n8: "AmiNameMissing \<notin> set (check_imds_deprecation lib c)"
    using check_imds_deprecation_kind [of AmiNameMissing lib c] by auto
  have n9: "AmiNameMissing \<notin> set (check_name c)" by (simp only: check_name_set) simp
  show ?thesis
    unfolding Prepare_errors set_append Un_iff
    using n1 n3 n4 n5 n6 n7 n8 n9 by (auto split: if_splits)
qed

lemma sample_name_accepted:
  "fst (Prepare sample_ami_lib (sample_ami_config ''My AMI (v1.0) [test]'') None) = []"
  by (simp add: Prepare_errors sample_ami_lib_def sample_ami_config_def check_kms_regions_def
      prepareRegions_def check_share_def check_kmsKeys_def collect_kmsKeys_def check_name_def
      check_imds_deprecation_def templateCleanAMIName_def ami_name_allowed_def isalphanumeric_def)

text \<open>
  Claim C6. Whatever the rest of the configuration, \<open>Prepare\<close> returns the error on
  the length of the name for the name \<open>ab\<close> and for every name of 129 characters,
  and the error on the characters of the name for every name with a \<open>#\<close>; for the
  name \<open>My AMI (v1.0) [test]\<close>, and for every name of 3 to 128 characters that are
  alphanumerics, parentheses, square brackets, spaces, periods, slashes, dashes,
  single quotes, at-signs or underscores, it returns none of its three errors on the
  name. The error on the length is returned exactly for the names shorter than 3 or
  longer than 128 characters, the error on the characters exactly for the names
  with a character that is not allowed, the error on the missing name exactly for
  the empty name. A configuration with the name \<open>My AMI (v1.0) [test]\<close> and nothing
  else set passes with no error.
\<close>

theorem Prepare_ami_name_validation:
  "(AMIName c = ''ab'' \<longrightarrow> AmiNameLength \<in> set (fst (Prepare lib c ac))) \<and>
   (length (AMIName c) = 129 \<longrightarrow> AmiNameLength \<in> set (fst (Prepare lib c ac))) \<and>
   (CHR ''#'' \<in> set (AMIName c) \<longrightarrow> AmiNameCharacters \<in> set (fst (Prepare lib c ac))) \<and>
   (AMIName c = ''My AMI (v1.0) [test]'' \<longrightarrow>
      AmiNameMissing \<notin> set (fst (Prepare lib c ac)) \<and>
      AmiNameLength \<notin> set (fst (Prepare lib c ac)) \<and>
      AmiNameCharacters \<notin> set (fst (Prepare lib c ac))) \<and>
   (3 \<le> length (AMIName c) \<and> length (AMIName c) \<le> 128 \<and>
    (\<forall>ch\<in>set (AMIName c).
       ch \<in> set ''0123456789abcdefghijklmnopqrstuvwxyzABCDEFGHIJKLMNOPQRSTUVWXYZ'' \<or>
       ch \<in> set ''()[] ./-'@_'') \<longrightarrow>
      AmiNameMissing \<notin> set (fst (Prepare lib c ac)) \<and>
      AmiNameLength \<notin> set (fst (Prepare lib c ac)) \<and>
      AmiNameCharacters \<notin> set (fst (Prepare lib c ac))) \<and>
   (AmiNameLength \<in> set (fst (Prepare lib c ac))) =
     (length (AMIName c) < 3 \<or> 128 < length (AMIName c)) \<and>
   (AmiNameCharacters \<in> set (fst (Prepare lib c ac))) =
     (\<exists>ch\<in>set (AMIName c). \<not> ami_name_allowed ch) \<and>
   (AmiNameMissing \<in> set (fst (Prepare lib c ac))) = (AMIName c = []) \<and>
   fst (Prepare sample_ami_lib (sample_ami_config ''My AMI (v1.0) [test]'') None) = []"
proof -
  have allowed: "ami_name_allowed ch =
      (ch \<in> set ''0123456789abcdefghijklmnopqrstuvwxyzABCDEFGHIJKLMNOPQRSTUVWXYZ'' \<or>
       ch \<in> set ''()[] ./-'@_'')" for ch
    by (simp only: ami_name_allowed_def isalphanumeric_def List.member_iff)
  have a: "AMIName c = ''ab'' \<Longrightarrow> AmiNameLength \<in> set (fst (Prepare lib c ac))"
    by (simp add: AmiNameLength_iff)
  have b: "length (AMIName c) = 129 \<Longrightarrow> AmiNameLength \<in> set (fst (Prepare lib c ac))"
    by (simp add: AmiNameLength_iff)
  have h: "CHR ''#'' \<in> set (AMIName c) \<Longrightarrow> AmiNameCharacters \<in> set (fst (Prepare lib c ac))"
    using hash_not_allowed by (auto simp only: AmiNameCharacters_iff)
  have g: "AmiNameMissing \<notin> set (fst (Prepare lib c ac)) \<and>
      AmiNameLength \<notin> set (fst (Prepare lib c ac)) \<and>
      AmiNameCharacters \<notin> set (fst (Prepare lib c ac))"
    if "3 \<le> length (AMIName c)" "length (AMIName c) \<le> 128"
      "\<forall>ch\<in>set (AMIName c).
         ch \<in> set ''0123456789abcdefghijklmnopqrstuvwxyzABCDEFGHIJKLMNOPQRSTUVWXYZ'' \<or>
         ch \<in> set ''()[] ./-'@_''"
  proof -
    from that(3) have "\<forall>ch\<in>set (AMIName c). ami_name_allowed ch" by (simp only: allowed)
    moreover from that(1) have "AMIName c \<noteq> []" by auto
    ultimately show ?thesis
      using that(1,2) by (simp only: AmiNameLength_iff AmiNameCharacters_iff AmiNameMissing_iff) auto
  qed
  have m: "AmiNameMissing \<notin> set (fst (Prepare lib c ac)) \<and>
      AmiNameLength \<notin> set (fst (Prepare lib c ac)) \<and>
      AmiNameCharacters \<notin> set (fst (Prepare lib c ac))"
    if n: "AMIName c = ''My AMI (v1.0) [test]''"
  proof (rule g)
    show "3 \<le> length (AMIName c)" and "length (AMIName c) \<le> 128" by (simp_all add: n)
    show "\<forall>ch\<in>set (AMIName c).
         ch \<in> set ''0123456789abcdefghijklmnopqrstuvwxyzABCDEFGHIJKLMNOPQRSTUVWXYZ'' \<or>
         ch \<in> set ''()[] ./-'@_''"
      by (simp add: n)
  qed
  show ?thesis
    using a b h g m AmiNameLength_iff [of lib c ac] AmiNameCharacters_iff [of lib c ac]
      AmiNameMissing_iff [of lib c ac] sample_name_accepted
    by blast
qed

theorem Prepare_ami_name_validation_witness:
  "AmiNameLength \<in> set (fst (Prepare sample_ami_lib (sample_ami_config ''ab'') None)) \<and>
   AmiNameLength \<in> set (fst (Prepare sample_ami_lib (sample_ami_config (replicate 129 (CHR ''a''))) None)) \<and>
   AmiNameCharacters \<in> set (fst (Prepare sample_ami_lib (sample_ami_config ''my#ami'') None)) \<and>
   fst (Prepare sample_ami_lib (sample_ami_config ''My AMI (v1.0) [test]'') None) = []"
proof -
  have n: "AMIName (sample_ami_config x) = x" for x
    by (simp add: sample_ami_config_def)
  from Prepare_ami_name_validation [of "sample_ami_config ''ab''" sample_ami_lib None]
  have one: "AmiNameLength \<in> set (fst (Prepare sample_ami_lib (sample_ami_config ''ab'') None))"
    by (simp add: n)
  from Prepare_ami_name_validation [of "sample_ami_config (replicate 129 (CHR ''a''))" sample_ami_lib None]
  have two: "AmiNameLength \<in>
      set (fst (Prepare sample_ami_lib (sample_ami_config (replicate 129 (CHR ''a''))) None))"
    by (simp add: n)
  from Prepare_ami_name_validation [of "sample_ami_config ''my#ami''" sample_ami_lib None]
  have three: "AmiNameCharacters \<in> set (fst (Prepare sample_ami_lib (sample_ami_config ''my#ami'') None))"
    by (simp add: n)
  from Prepare_ami_name_validation [of "sample_ami_config ''ab''" sample_ami_lib None]
  have four: "fst (Prepare sample_ami_lib (sample_ami_config ''My AMI (v1.0) [test]'') None) = []"
    by blast
  from one two three four show ?thesis by blast
qed

section \<open>Properties of PostProcess\<close>


lemma io_bind_fail: "fst m = Returned (Inl e) \<Longrightarrow> io_bind m f = (Returned (Inl e), snd m)"
  by (cases m) (simp add: io_bind_def)

lemma io_bind_panic: "fst m = Panic \<Longrightarrow> io_bind m f = (Panic, snd m)"
  by (cases m) (simp add: io_bind_def)

lemma io_bind_goes_on:
  "m = (Returned (Inr a), t) \<Longrightarrow> io_bind m f = (fst (f a), t @ snd (f a))"
  by (simp add: io_bind_def split_def)

lemma await_trace:
  "snd (await_import_phase w taskId) =
     [Call_WaitUntilImageImported taskId, Call_DescribeImportImageTasks taskId]"
  by (simp add: await_import_phase_def io_call_def io_fail_def io_panic_def io_ok_def
      split: option.splits sum.splits list.splits)

lemma await_waiter_failure:
  "WaitUntilImageImported w taskId = Some err \<Longrightarrow>
   DescribeImportImageTasks w taskId = Inr (task # rest) \<Longrightarrow> StatusMessage task = Some msg \<Longrightarrow>
   fst (await_import_phase w taskId) = Returned (Inl (waiter_failure taskId msg err))"
  by (simp add: await_import_phase_def io_call_def io_fail_def)

lemma await_waiter_failure_placeholder:
  "WaitUntilImageImported w taskId = Some err \<Longrightarrow>
   DescribeImportImageTasks w taskId = Inl err2 \<Longrightarrow>
   fst (await_import_phase w taskId) =
     Returned (Inl (waiter_failure taskId ''Error retrieving status message'' err))"
  by (simp add: await_import_phase_def io_call_def io_fail_def)

lemma await_job_failure:
  "WaitUntilImageImported w taskId = None \<Longrightarrow>
   DescribeImportImageTasks w taskId = Inr (task # rest) \<Longrightarrow> Status task = Some status \<Longrightarrow>
   status \<noteq> ''completed'' \<Longrightarrow> StatusMessage task = Some msg \<Longrightarrow>
   fst (await_import_phase w taskId) = Returned (Inl (job_failure taskId msg))"
  by (simp add: await_import_phase_def io_call_def io_fail_def)

lemma await_no_image:
  "WaitUntilImageImported w taskId \<noteq> None \<or>
   (\<exists>task rest status. DescribeImportImageTasks w taskId = Inr (task # rest) \<and>
      Status task = Some status \<and> status \<noteq> ''completed'') \<Longrightarrow>
   fst (await_import_phase w taskId) \<noteq> Returned (Inr a)"
  by (auto simp add: await_import_phase_def io_call_def io_fail_def io_panic_def io_ok_def
      split: option.splits sum.splits list.splits)

lemma await_completed:
  "fst (await_import_phase w taskId) = Returned (Inr imported) \<Longrightarrow>
   WaitUntilImageImported w taskId = None \<and>
   (\<exists>task rest. DescribeImportImageTasks w taskId = Inr (task # rest) \<and>
      Status task = Some ''completed'' \<and> ImageId task = Some imported)"
  by (auto simp add: await_import_phase_def io_call_def io_fail_def io_panic_def io_ok_def
      split: option.splits sum.splits list.splits if_splits)

lemma locate_trace: "snd (locate_phase w c files) = []"
  unfolding locate_phase_def Let_def io_fail_def io_ok_def
  by (cases "new_Session w"; cases "interpolate_Render w (S3Key c)") simp_all

lemma upload_trace:
  "upload_phase w c source = (Returned (Inr u), t) \<Longrightarrow> t = [Call_Upload (upload_input c source)]"
  unfolding upload_phase_def io_fail_def io_ok_def io_call_def
  by (cases "os_Open w source"; cases "Upload w (upload_input c source)") auto

lemma start_import_trace:
  "snd (start_import_phase w c) = [Call_ImportImage (import_params c)]"
  unfolding start_import_phase_def io_fail_def io_ok_def io_call_def io_panic_def
  by (simp split: option.splits sum.splits)








lemma sample_locate:
  "locate_phase (sample_aws x y) sample_import_config [''output/packer.ova''] =
     (Returned (Inr (sample_session, sample_import_config, ''output/packer.ova'')), [])"
  by (simp add: locate_phase_def sample_aws_def sample_import_config_def io_ok_def io_fail_def
      Let_def suffix_to_prefix)

lemma sample_upload:
  "upload_phase (sample_aws x y) sample_import_config ''output/packer.ova'' =
     (Returned (Inr ()), [Call_Upload (upload_input sample_import_config ''output/packer.ova'')])"
  by (simp add: upload_phase_def sample_aws_def io_ok_def io_call_def)

lemma sample_start:
  "start_import_phase (sample_aws x y) sample_import_config =
     (Returned (Inr ''import-ami-1''), [Call_ImportImage (import_params sample_import_config)])"
  by (simp add: start_import_phase_def sample_aws_def io_ok_def io_call_def)

lemma sample_aws_answers:
  "WaitUntilImageImported (sample_aws x y) t = x"
  "DescribeImportImageTasks (sample_aws x y) t = y"
  by (simp_all add: sample_aws_def)

lemma failure_texts_differ: "waiter_failure taskId msg err \<noteq> job_failure taskId msg'"
  by (simp add: waiter_failure_def job_failure_def)

lemma failure_texts_contain:
  "sublist taskId (waiter_failure taskId msg err)"
  "sublist msg (waiter_failure taskId msg err)"
  "sublist err (waiter_failure taskId msg err)"
  "sublist taskId (job_failure taskId msg)"
  "sublist msg (job_failure taskId msg)"
proof -
  show "sublist taskId (waiter_failure taskId msg err)"
    unfolding sublist_def waiter_failure_def
    by (rule exI [of _ "''Import task ''"],
        rule exI [of _ "'' failed with status message: '' @ msg @ '', error: '' @ err"]) simp
  show "sublist msg (waiter_failure taskId msg err)"
    unfolding sublist_def waiter_failure_def
    by (rule exI [of _ "''Import task '' @ taskId @ '' failed with status message: ''"],
        rule exI [of _ "'', error: '' @ err"]) simp
  show "sublist err (waiter_failure taskId msg err)"
    unfolding sublist_def waiter_failure_def
    by (rule exI [of _ "''Import task '' @ taskId @ '' failed with status message: '' @ msg @ '', error: ''"],
        rule exI [of _ "[]"]) simp
  show "sublist taskId (job_failure taskId msg)"
    unfolding sublist_def job_failure_def
    by (rule exI [of _ "''Import task ''"], rule exI [of _ "'' failed: '' @ msg"]) simp
  show "sublist msg (job_failure taskId msg)"
    unfolding sublist_def job_failure_def
    by (rule exI [of _ "''Import task '' @ taskId @ '' failed: ''"], rule exI [of _ "[]"]) simp
qed

lemma PostProcess_after_start:
  assumes "locate_phase w c0 files = (Returned (Inr (session, c, source)), t1)"
    and "upload_phase w c source = (Returned (Inr ()), t2)"
    and "start_import_phase w c = (Returned (Inr taskId), t3)"
  shows "PostProcess w c0 files =
     (fst (io_bind (await_import_phase w taskId) (after_import w c session)),
      [Call_Upload (upload_input c source), Call_ImportImage (import_params c)] @
      snd (io_bind (await_import_phase w taskId) (after_import w c session)))"
proof -
  from assms(1) have t1: "t1 = []" using locate_trace [of w c0 files] by simp
  from assms(2) have t2: "t2 = [Call_Upload (upload_input c source)]" by (rule upload_trace)
  from assms(3) have t3: "t3 = [Call_ImportImage (import_params c)]"
    using start_import_trace [of w c] by simp
  show ?thesis
    unfolding PostProcess_def
    by (simp add: io_bind_goes_on [OF assms(1)] io_bind_goes_on [OF assms(2)]
        io_bind_goes_on [OF assms(3)] t1 t2 t3)
qed

lemma PostProcess_import_failed:
  assumes "locate_phase w c0 files = (Returned (Inr (session, c, source)), t1)"
    and "upload_phase w c source = (Returned (Inr ()), t2)"
    and "start_import_phase w c = (Returned (Inr taskId), t3)"
    and "fst (await_import_phase w taskId) = Returned (Inl e)"
  shows "PostProcess w c0 files =
     (Returned (Inl e),
      [Call_Upload (upload_input c source), Call_ImportImage (import_params c),
       Call_WaitUntilImageImported taskId, Call_DescribeImportImageTasks taskId])"
  by (simp add: PostProcess_after_start [OF assms(1,2,3)] io_bind_fail [OF assms(4)] await_trace)

lemma PostProcess_import_panicked:
  assumes "locate_phase w c0 files = (Returned (Inr (session, c, source)), t1)"
    and "upload_phase w c source = (Returned (Inr ()), t2)"
    and "start_import_phase w c = (Returned (Inr taskId), t3)"
    and "fst (await_import_phase w taskId) = Panic"
  shows "PostProcess w c0 files =
     (Panic,
      [Call_Upload (upload_input c source), Call_ImportImage (import_params c),
       Call_WaitUntilImageImported taskId, Call_DescribeImportImageTasks taskId])"
  by (simp add: PostProcess_after_start [OF assms(1,2,3)] io_bind_panic [OF assms(4)] await_trace)

lemma PostProcess_import_not_completed:
  assumes "locate_phase w c0 files = (Returned (Inr (session, c, source)), t1)"
    and "upload_phase w c source = (Returned (Inr ()), t2)"
    and "start_import_phase w c = (Returned (Inr taskId), t3)"
    and "\<forall>a. fst (await_import_phase w taskId) \<noteq> Returned (Inr a)"
  shows "snd (PostProcess w c0 files) =
      [Call_Upload (upload_input c source), Call_ImportImage (import_params c),
       Call_WaitUntilImageImported taskId, Call_DescribeImportImageTasks taskId] \<and>
    (\<forall>artifact. fst (PostProcess w c0 files) \<noteq> Returned (Inr artifact))"
proof (cases "fst (await_import_phase w taskId)")
  case Panic
  from PostProcess_import_panicked [OF assms(1,2,3) Panic] show ?thesis by simp
next
  case (Returned r)
  with assms(4) obtain e where "r = Inl e" by (cases r) auto
  with Returned have "fst (await_import_phase w taskId) = Returned (Inl e)" by simp
  from PostProcess_import_failed [OF assms(1,2,3) this] show ?thesis by simp
qed

text \<open>
  Claim C2, as amended. Let the source file be found, the upload succeed and the
  import start with the task id \<open>taskId\<close>.
  \<^item> If the wait fails with \<open>err\<close> and \<open>DescribeImportImageTasks\<close> gives the task with
    the status message \<open>msg\<close>, \<open>PostProcess\<close> returns no artifact and the error
    ``Import task \<open>taskId\<close> failed with status message: \<open>msg\<close>, error: \<open>err\<close>''.
  \<^item> If the wait fails and \<open>DescribeImportImageTasks\<close> fails too, the error is the
    same with ``Error retrieving status message'' in the place of the message.
  \<^item> If the wait succeeds and the task's status is not \<open>completed\<close>, \<open>PostProcess\<close>
    returns no artifact and the error ``Import task \<open>taskId\<close> failed: \<open>msg\<close>'', \<open>msg\<close>
    being the task's status message.
  \<^item> Whenever the wait fails or the status is not \<open>completed\<close>, \<open>PostProcess\<close> returns
    no artifact and its calls are the upload, the start of the import, the wait and
    \<open>DescribeImportImageTasks\<close>, nothing else: no rename, no tagging, no
    modification of an attribute, no deletion of the uploaded object.
  The two errors hold the task id and the status message (the first one the waiter's
  error as well), and for one task the error of a failed wait is never the error of
  a failed job.
\<close>

theorem PostProcess_import_failure:
  "(locate_phase w c0 files = (Returned (Inr (session, c, source)), t1) \<and>
    upload_phase w c source = (Returned (Inr ()), t2) \<and>
    start_import_phase w c = (Returned (Inr taskId), t3) \<longrightarrow>
      (WaitUntilImageImported w taskId = Some err \<and>
       DescribeImportImageTasks w taskId = Inr (task # rest) \<and> StatusMessage task = Some msg \<longrightarrow>
         PostProcess w c0 files =
           (Returned (Inl (waiter_failure taskId msg err)),
            [Call_Upload (upload_input c source), Call_ImportImage (import_params c),
             Call_WaitUntilImageImported taskId, Call_DescribeImportImageTasks taskId])) \<and>
      (WaitUntilImageImported w taskId = Some err \<and>
       DescribeImportImageTasks w taskId = Inl err2 \<longrightarrow>
         PostProcess w c0 files =
           (Returned (Inl (waiter_failure taskId ''Error retrieving status message'' err)),
            [Call_Upload (upload_input c source), Call_ImportImage (import_params c),
             Call_WaitUntilImageImported taskId, Call_DescribeImportImageTasks taskId])) \<and>
      (WaitUntilImageImported w taskId = None \<and>
       DescribeImportImageTasks w taskId = Inr (task # rest) \<and> Status task = Some status \<and>
       status \<noteq> ''completed'' \<and> StatusMessage task = Some msg \<longrightarrow>
         PostProcess w c0 files =
           (Returned (Inl (job_failure taskId msg)),
            [Call_Upload (upload_input c source), Call_ImportImage (import_params c),
             Call_WaitUntilImageImported taskId, Call_DescribeImportImageTasks taskId])) \<and>
      (WaitUntilImageImported w taskId \<noteq> None \<or>
       (\<exists>task' rest' status'. DescribeImportImageTasks w taskId = Inr (task' # rest') \<and>
          Status task' = Some status' \<and> status' \<noteq> ''completed'') \<longrightarrow>
         snd (PostProcess w c0 files) =
           [Call_Upload (upload_input c source), Call_ImportImage (import_params c),
            Call_WaitUntilImageImported taskId, Call_DescribeImportImageTasks taskId] \<and>
         (\<forall>artifact. fst (PostProcess w c0 files) \<noteq> Returned (Inr artifact)))) \<and>
   sublist taskId (waiter_failure taskId msg err) \<and>
   sublist msg (waiter_failure taskId msg err) \<and>
   sublist err (waiter_failure taskId msg err) \<and>
   sublist taskId (job_failure taskId msg) \<and>
   sublist msg (job_failure taskId msg) \<and>
   waiter_failure taskId msg err \<noteq> job_failure taskId msg'"
proof -
  have a: "PostProcess w c0 files =
           (Returned (Inl (waiter_failure taskId msg err)),
            [Call_Upload (upload_input c source), Call_ImportImage (import_params c),
             Call_WaitUntilImageImported taskId, Call_DescribeImportImageTasks taskId])"
    if pre: "locate_phase w c0 files = (Returned (Inr (session, c, source)), t1)"
      "upload_phase w c source = (Returned (Inr ()), t2)"
      "start_import_phase w c = (Returned (Inr taskId), t3)"
      and h: "WaitUntilImageImported w taskId = Some err"
      "DescribeImportImageTasks w taskId = Inr (task # rest)" "StatusMessage task = Some msg"
    by (rule PostProcess_import_failed [OF pre await_waiter_failure [OF h]])
  have b: "PostProcess w c0 files =
           (Returned (Inl (waiter_failure taskId ''Error retrieving status message'' err)),
            [Call_Upload (upload_input c source), Call_ImportImage (import_params c),
             Call_WaitUntilImageImported taskId, Call_DescribeImportImageTasks taskId])"
    if pre: "locate_phase w c0 files = (Returned (Inr (session, c, source)), t1)"
      "upload_phase w c source = (Returned (Inr ()), t2)"
      "start_import_phase w c = (Returned (Inr taskId), t3)"
      and h: "WaitUntilImageImported w taskId = Some err"
      "DescribeImportImageTasks w taskId = Inl err2"
    by (rule PostProcess_import_failed [OF pre await_waiter_failure_placeholder [OF h]])
  have d: "PostProcess w c0 files =
           (Returned (Inl (job_failure taskId msg)),
            [Call_Upload (upload_input c source), Call_ImportImage (import_params c),
             Call_WaitUntilImageImported taskId, Call_DescribeImportImageTasks taskId])"
    if pre: "locate_phase w c0 files = (Returned (Inr (session, c, source)), t1)"
      "upload_phase w c source = (Returned (Inr ()), t2)"
      "start_import_phase w c = (Returned (Inr taskId), t3)"
      and h: "WaitUntilImageImported w taskId = None"
      "DescribeImportImageTasks w taskId = Inr (task # rest)" "Status task = Some status"
      "status \<noteq> ''completed''" "StatusMessage task = Some msg"
    by (rule PostProcess_import_failed [OF pre await_job_failure [OF h]])
  have e: "snd (PostProcess w c0 files) =
           [Call_Upload (upload_input c source), Call_ImportImage (import_params c),
            Call_WaitUntilImageImported taskId, Call_DescribeImportImageTasks taskId] \<and>
         (\<forall>artifact. fst (PostProcess w c0 files) \<noteq> Returned (Inr artifact))"
    if pre: "locate_phase w c0 files = (Returned (Inr (session, c, source)), t1)"
      "upload_phase w c source = (Returned (Inr ()), t2)"
      "start_import_phase w c = (Returned (Inr taskId), t3)"
      and h: "WaitUntilImageImported w taskId \<noteq> None \<or>
       (\<exists>task' rest' status'. DescribeImportImageTasks w taskId = Inr (task' # rest') \<and>
          Status task' = Some status' \<and> status' \<noteq> ''completed'')"
  proof -
    have "\<forall>a. fst (await_import_phase w taskId) \<noteq> Returned (Inr a)"
      using await_no_image [OF h] by blast
    from PostProcess_import_not_completed [OF pre this] show ?thesis .
  qed
  have main: "locate_phase w c0 files = (Returned (Inr (session, c, source)), t1) \<and>
    upload_phase w c source = (Returned (Inr ()), t2) \<and>
    start_import_phase w c = (Returned (Inr taskId), t3) \<longrightarrow>
      (WaitUntilImageImported w taskId = Some err \<and>
       DescribeImportImageTasks w taskId = Inr (task # rest) \<and> StatusMessage task = Some msg \<longrightarrow>
         PostProcess w c0 files =
           (Returned (Inl (waiter_failure taskId msg err)),
            [Call_Upload (upload_input c source), Call_ImportImage (import_params c),
             Call_WaitUntilImageImported taskId, Call_DescribeImportImageTasks taskId])) \<and>
      (WaitUntilImageImported w taskId = Some err \<and>
       DescribeImportImageTasks w taskId = Inl err2 \<longrightarrow>
         PostProcess w c0 files =
           (Returned (Inl (waiter_failure taskId ''Error retrieving status message'' err)),
            [Call_Upload (upload_input c source), Call_ImportImage (import_params c),
             Call_WaitUntilImageImported taskId, Call_DescribeImportImageTasks taskId])) \<and>
      (WaitUntilImageImported w taskId = None \<and>
       DescribeImportImageTasks w taskId = Inr (task # rest) \<and> Status task = Some status \<and>
       status \<noteq> ''completed'' \<and> StatusMessage task = Some msg \<longrightarrow>
         PostProcess w c0 files =
           (Returned (Inl (job_failure taskId msg)),
            [Call_Upload (upload_input c source), Call_ImportImage (import_params c),
             Call_WaitUntilImageImported taskId, Call_DescribeImportImageTasks taskId])) \<and>
      (WaitUntilImageImported w taskId \<noteq> None \<or>
       (\<exists>task' rest' status'. DescribeImportImageTasks w taskId = Inr (task' # rest') \<and>
          Status task' = Some status' \<and> status' \<noteq> ''completed'') \<longrightarrow>
         snd (PostProcess w c0 files) =
           [Call_Upload (upload_input c source), Call_ImportImage (import_params c),
            Call_WaitUntilImageImported taskId, Call_DescribeImportImageTasks taskId] \<and>
         (\<forall>artifact. fst (PostProcess w c0 files) \<noteq> Returned (Inr artifact)))"
  proof (intro impI)
    assume p: "locate_phase w c0 files = (Returned (Inr (session, c, source)), t1) \<and>
      upload_phase w c source = (Returned (Inr ()), t2) \<and>
      start_import_phase w c = (Returned (Inr taskId), t3)"
    then have p1: "locate_phase w c0 files = (Returned (Inr (session, c, source)), t1)"
      and p2: "upload_phase w c source = (Returned (Inr ()), t2)"
      and p3: "start_import_phase w c = (Returned (Inr taskId), t3)"
      by simp_all
    show "(WaitUntilImageImported w taskId = Some err \<and>
       DescribeImportImageTasks w taskId = Inr (task # rest) \<and> StatusMessage task = Some msg \<longrightarrow>
         PostProcess w c0 files =
           (Returned (Inl (waiter_failure taskId msg err)),
            [Call_Upload (upload_input c source), Call_ImportImage (import_params c),
             Call_WaitUntilImageImported taskId, Call_DescribeImportImageTasks taskId])) \<and>
      (WaitUntilImageImported w taskId = Some err \<and>
       DescribeImportImageTasks w taskId = Inl err2 \<longrightarrow>
         PostProcess w c0 files =
           (Returned (Inl (waiter_failure taskId ''Error retrieving status message'' err)),
            [Call_Upload (upload_input c source), Call_ImportImage (import_params c),
             Call_WaitUntilImageImported taskId, Call_DescribeImportImageTasks taskId])) \<and>
      (WaitUntilImageImported w taskId = None \<and>
       DescribeImportImageTasks w taskId = Inr (task # rest) \<and> Status task = Some status \<and>
       status \<noteq> ''completed'' \<and> StatusMessage task = Some msg \<longrightarrow>
         PostProcess w c0 files =
           (Returned (Inl (job_failure taskId msg)),
            [Call_Upload (upload_input c source), Call_ImportImage (import_params c),
             Call_WaitUntilImageImported taskId, Call_DescribeImportImageTasks taskId])) \<and>
      (WaitUntilImageImported w taskId \<noteq> None \<or>
       (\<exists>task' rest' status'. DescribeImportImageTasks w taskId = Inr (task' # rest') \<and>
          Status task' = Some status' \<and> status' \<noteq> ''completed'') \<longrightarrow>
         snd (PostProcess w c0 files) =
           [Call_Upload (upload_input c source), Call_ImportImage (import_params c),
            Call_WaitUntilImageImported taskId, Call_DescribeImportImageTasks taskId] \<and>
         (\<forall>artifact. fst (PostProcess w c0 files) \<noteq> Returned (Inr artifact)))"
      apply (intro conjI impI)
      subgoal using a [OF p1 p2 p3] by blast
      subgoal using b [OF p1 p2 p3] by blast
      subgoal using d [OF p1 p2 p3] by blast
      subgoal using e [OF p1 p2 p3] by blast
      subgoal using e [OF p1 p2 p3] by blast
      done
  qed
  show ?thesis
    by (intro conjI main failure_texts_contain failure_texts_differ)
qed

theorem PostProcess_import_failure_witness:
  "PostProcess (sample_aws (Some ''ResourceNotReady: exceeded wait attempts'') (Inr [failed_task]))
      sample_import_config [''output/packer.ova''] =
     (Returned (Inl (waiter_failure ''import-ami-1'' ''ClientError: Unsupported kernel version''
                       ''ResourceNotReady: exceeded wait attempts'')),
      [Call_Upload (upload_input sample_import_config ''output/packer.ova''),
       Call_ImportImage (import_params sample_import_config),
       Call_WaitUntilImageImported ''import-ami-1'', Call_DescribeImportImageTasks ''import-ami-1'']) \<and>
   PostProcess (sample_aws None (Inr [failed_task])) sample_import_config [''output/packer.ova''] =
     (Returned (Inl (job_failure ''import-ami-1'' ''ClientError: Unsupported kernel version'')),
      [Call_Upload (upload_input sample_import_config ''output/packer.ova''),
       Call_ImportImage (import_params sample_import_config),
       Call_WaitUntilImageImported ''import-ami-1'', Call_DescribeImportImageTasks ''import-ami-1''])"
proof -
  have t: "Status failed_task = Some ''deleted'' \<and> ''deleted'' \<noteq> ''completed'' \<and>
      StatusMessage failed_task = Some ''ClientError: Unsupported kernel version''"
    by (simp add: failed_task_def)
  from PostProcess_import_failure
      [where w = "sample_aws (Some ''ResourceNotReady: exceeded wait attempts'') (Inr [failed_task])"
         and ?c0.0 = sample_import_config and files = "[''output/packer.ova'']"
         and session = sample_session and c = sample_import_config and source = "''output/packer.ova''"
         and ?t1.0 = "[]" and ?t2.0 = "[Call_Upload (upload_input sample_import_config ''output/packer.ova'')]"
         and ?t3.0 = "[Call_ImportImage (import_params sample_import_config)]"
         and taskId = "''import-ami-1''" and err = "''ResourceNotReady: exceeded wait attempts''"
         and task = failed_task and rest = "[]" and msg = "''ClientError: Unsupported kernel version''"]
    sample_locate sample_upload sample_start t
  have one: "PostProcess (sample_aws (Some ''ResourceNotReady: exceeded wait attempts'') (Inr [failed_task]))
      sample_import_config [''output/packer.ova''] =
     (Returned (Inl (waiter_failure ''import-ami-1'' ''ClientError: Unsupported kernel version''
                       ''ResourceNotReady: exceeded wait attempts'')),
      [Call_Upload (upload_input sample_import_config ''output/packer.ova''),
       Call_ImportImage (import_params sample_import_config),
       Call_WaitUntilImageImported ''import-ami-1'', Call_DescribeImportImageTasks ''import-ami-1''])"
    by (simp add: sample_aws_answers)
  from PostProcess_import_failure
      [where w = "sample_aws None (Inr [failed_task])"
         and ?c0.0 = sample_import_config and files = "[''output/packer.ova'']"
         and session = sample_session and c = sample_import_config and source = "''output/packer.ova''"
         and ?t1.0 = "[]" and ?t2.0 = "[Call_Upload (upload_input sample_import_config ''output/packer.ova'')]"
         and ?t3.0 = "[Call_ImportImage (import_params sample_import_config)]"
         and taskId = "''import-ami-1''"
         and task = failed_task and rest = "[]" and msg = "''ClientError: Unsupported kernel version''"
         and status = "''deleted''"]
    sample_locate sample_upload sample_start t
  have two: "PostProcess (sample_aws None (Inr [failed_task])) sample_import_config [''output/packer.ova''] =
     (Returned (Inl (job_failure ''import-ami-1'' ''ClientError: Unsupported kernel version'')),
      [Call_Upload (upload_input sample_import_config ''output/packer.ova''),
       Call_ImportImage (import_params sample_import_config),
       Call_WaitUntilImageImported ''import-ami-1'', Call_DescribeImportImageTasks ''import-ami-1''])"
    by (simp add: sample_aws_answers)
  from one two show ?thesis by blast
qed

text \<open>
  Where claim C2 fails as stated. The wait fails and \<open>DescribeImportImageTasks\<close>
  fails too: the error returned holds the placeholder, no status message of the task.
  And when the task that \<open>DescribeImportImageTasks\<close> gives has no status message (a
  nil pointer), \<open>PostProcess\<close> returns no error at all: it panics on the dereference,
  after a failed wait as well as for a status that is not \<open>completed\<close>.
\<close>

theorem PostProcess_status_message_counterexample:
  "WaitUntilImageImported (sample_aws (Some ''ResourceNotReady'') (Inl ''RequestExpired'')) ''import-ami-1'' =
     Some ''ResourceNotReady'' \<and>
   DescribeImportImageTasks (sample_aws (Some ''ResourceNotReady'') (Inl ''RequestExpired'')) ''import-ami-1'' =
     Inl ''RequestExpired'' \<and>
   fst (PostProcess (sample_aws (Some ''ResourceNotReady'') (Inl ''RequestExpired''))
          sample_import_config [''output/packer.ova'']) =
     Returned (Inl ''Import task import-ami-1 failed with status message: Error retrieving status message, error: ResourceNotReady'') \<and>
   StatusMessage silent_task = None \<and>
   fst (PostProcess (sample_aws (Some ''ResourceNotReady'') (Inr [silent_task]))
          sample_import_config [''output/packer.ova'']) = Panic \<and>
   fst (PostProcess (sample_aws None (Inr [silent_task]))
          sample_import_config [''output/packer.ova'']) = Panic"
  by code_simp




end
